theory Spec2Isabelle
  imports Complex_Main "HOL-Library.Sublist" "HOL-Library.Log_Nat"
begin

section \<open>Python and NumPy floats\<close>

text \<open>
  Every number the program handles is a binary64 float (a Python \<^verbatim>\<open>float\<close> or a
  \<^verbatim>\<open>numpy.float64\<close>). The model keeps the three special values the code can
  produce and test (\<^verbatim>\<open>float('inf')\<close>, its negation, and NaN) apart from the
  finite values. A finite value is a real number and the arithmetic on finite values is
  exact: rounding to 53 bits, overflow to an infinity and the sign of a zero are left out,
  except where a float is truncated to an integer and in the elevation decoding, where
  the roundings, and the overflow of a rounded result, are written out (\<open>round_double\<close>
  and \<open>fround\<close> below). Special values follow IEEE 754: NaN is contagious and
  compares false with everything, \<open>inf - inf\<close>, \<open>0 * inf\<close>, \<open>0 / 0\<close> and
  \<open>inf / inf\<close> are NaN, and a NumPy division of a non-zero finite value by zero is an
  infinity.
\<close>

datatype pyfloat = Fin real | PInf | NInf | NaN

fun is_finite :: "pyfloat \<Rightarrow> bool" where
  "is_finite (Fin _) = True"
| "is_finite _ = False"

text \<open>The ordered comparisons \<^verbatim>\<open>a < b\<close>, \<^verbatim>\<open>a <= b\<close>, \<^verbatim>\<open>a > b\<close> and \<^verbatim>\<open>a >= b\<close>.\<close>

fun flt :: "pyfloat \<Rightarrow> pyfloat \<Rightarrow> bool" where
  "flt NaN _ = False"
| "flt _ NaN = False"
| "flt (Fin a) (Fin b) = (a < b)"
| "flt (Fin _) PInf = True"
| "flt (Fin _) NInf = False"
| "flt PInf _ = False"
| "flt NInf NInf = False"
| "flt NInf _ = True"

fun fle :: "pyfloat \<Rightarrow> pyfloat \<Rightarrow> bool" where
  "fle NaN _ = False"
| "fle _ NaN = False"
| "fle (Fin a) (Fin b) = (a \<le> b)"
| "fle (Fin _) PInf = True"
| "fle (Fin _) NInf = False"
| "fle PInf PInf = True"
| "fle PInf _ = False"
| "fle NInf _ = True"

definition fgt :: "pyfloat \<Rightarrow> pyfloat \<Rightarrow> bool" where
  "fgt a b = flt b a"

definition fge :: "pyfloat \<Rightarrow> pyfloat \<Rightarrow> bool" where
  "fge a b = fle b a"

text \<open>Negation, \<^verbatim>\<open>a + b\<close>, \<^verbatim>\<open>a - b\<close>, \<^verbatim>\<open>a * b\<close>.\<close>

fun fneg :: "pyfloat \<Rightarrow> pyfloat" where
  "fneg (Fin a) = Fin (- a)"
| "fneg PInf = NInf"
| "fneg NInf = PInf"
| "fneg NaN = NaN"

fun fadd :: "pyfloat \<Rightarrow> pyfloat \<Rightarrow> pyfloat" where
  "fadd NaN _ = NaN"
| "fadd _ NaN = NaN"
| "fadd (Fin a) (Fin b) = Fin (a + b)"
| "fadd (Fin _) PInf = PInf"
| "fadd (Fin _) NInf = NInf"
| "fadd PInf NInf = NaN"
| "fadd PInf _ = PInf"
| "fadd NInf PInf = NaN"
| "fadd NInf _ = NInf"

definition fsub :: "pyfloat \<Rightarrow> pyfloat \<Rightarrow> pyfloat" where
  "fsub a b = fadd a (fneg b)"

text \<open>The infinity whose sign is the sign of a non-zero real; NaN for zero.\<close>

definition signed_inf :: "real \<Rightarrow> pyfloat" where
  "signed_inf a = (if a = 0 then NaN else if 0 < a then PInf else NInf)"

fun fmul :: "pyfloat \<Rightarrow> pyfloat \<Rightarrow> pyfloat" where
  "fmul NaN _ = NaN"
| "fmul _ NaN = NaN"
| "fmul (Fin a) (Fin b) = Fin (a * b)"
| "fmul (Fin a) PInf = signed_inf a"
| "fmul (Fin a) NInf = signed_inf (- a)"
| "fmul PInf (Fin b) = signed_inf b"
| "fmul NInf (Fin b) = signed_inf (- b)"
| "fmul PInf PInf = PInf"
| "fmul PInf NInf = NInf"
| "fmul NInf PInf = NInf"
| "fmul NInf NInf = PInf"

text \<open>
  \<^verbatim>\<open>a / b\<close> on \<^verbatim>\<open>numpy.float64\<close>: a zero divisor gives an infinity or NaN (and a
  warning), never an exception. A zero is taken as positive.
\<close>

fun fdiv :: "pyfloat \<Rightarrow> pyfloat \<Rightarrow> pyfloat" where
  "fdiv NaN _ = NaN"
| "fdiv _ NaN = NaN"
| "fdiv (Fin a) (Fin b) = (if b = 0 then signed_inf a else Fin (a / b))"
| "fdiv (Fin _) PInf = Fin 0"
| "fdiv (Fin _) NInf = Fin 0"
| "fdiv PInf (Fin b) = (if b < 0 then NInf else PInf)"
| "fdiv NInf (Fin b) = (if b < 0 then PInf else NInf)"
| "fdiv PInf PInf = NaN"
| "fdiv PInf NInf = NaN"
| "fdiv NInf PInf = NaN"
| "fdiv NInf NInf = NaN"

text \<open>\<^verbatim>\<open>np.sin\<close>, \<^verbatim>\<open>np.cos\<close>, \<^verbatim>\<open>np.sqrt\<close>: NaN at an infinity and below zero.\<close>

fun fsin :: "pyfloat \<Rightarrow> pyfloat" where
  "fsin (Fin a) = Fin (sin a)"
| "fsin _ = NaN"

fun fcos :: "pyfloat \<Rightarrow> pyfloat" where
  "fcos (Fin a) = Fin (cos a)"
| "fcos _ = NaN"

fun fsqrt :: "pyfloat \<Rightarrow> pyfloat" where
  "fsqrt (Fin a) = (if a < 0 then NaN else Fin (sqrt a))"
| "fsqrt PInf = PInf"
| "fsqrt _ = NaN"

text \<open>
  The two-argument arctangent: the angle in \<open>(-\<pi>, \<pi>]\<close> of the point \<open>(x, y)\<close>, and 0
  at the origin; its values at infinite arguments are those of the C standard library.
\<close>

definition atan2 :: "real \<Rightarrow> real \<Rightarrow> real" where
  "atan2 y x =
     (if 0 < x then arctan (y / x)
      else if x < 0 then (if 0 \<le> y then arctan (y / x) + pi else arctan (y / x) - pi)
      else if 0 < y then pi / 2
      else if y < 0 then - (pi / 2)
      else 0)"

fun farctan2 :: "pyfloat \<Rightarrow> pyfloat \<Rightarrow> pyfloat" where
  "farctan2 NaN _ = NaN"
| "farctan2 _ NaN = NaN"
| "farctan2 (Fin y) (Fin x) = Fin (atan2 y x)"
| "farctan2 (Fin y) PInf = Fin 0"
| "farctan2 (Fin y) NInf = (if 0 \<le> y then Fin pi else Fin (- pi))"
| "farctan2 PInf (Fin _) = Fin (pi / 2)"
| "farctan2 NInf (Fin _) = Fin (- (pi / 2))"
| "farctan2 PInf PInf = Fin (pi / 4)"
| "farctan2 PInf NInf = Fin (3 * pi / 4)"
| "farctan2 NInf PInf = Fin (- (pi / 4))"
| "farctan2 NInf NInf = Fin (- (3 * pi / 4))"

text \<open>\<^verbatim>\<open>np.degrees\<close> and \<^verbatim>\<open>np.radians\<close> multiply by \<open>180 / \<pi>\<close> and by \<open>\<pi> / 180\<close>.\<close>

definition np_degrees :: "pyfloat \<Rightarrow> pyfloat" where
  "np_degrees x = fmul x (Fin (180 / pi))"

definition np_radians :: "pyfloat \<Rightarrow> pyfloat" where
  "np_radians x = fmul x (Fin (pi / 180))"

section \<open>Rounding to binary64\<close>

text \<open>
  Two results of the program depend on single roundings: the integer that \<^verbatim>\<open>int\<close>
  makes of a float (the number of steps, the pixel under a point), and the decoded
  elevation, which the specification fixes exactly. There the roundings are written out.
  \<open>round_double\<close> rounds a real to the nearest binary64 value, ties to the even
  significand, with 53 significant bits, gradual underflow below \<open>2\<^sup>-\<^sup>1\<^sup>0\<^sup>2\<^sup>2\<close> and no
  bound on the exponent. \<open>fround\<close> is the result of a float operation whose exact
  value is given: the rounded value, or an infinity where the rounded value reaches
  \<open>2\<^sup>1\<^sup>0\<^sup>2\<^sup>4\<close>, beyond the largest binary64 value. \<open>ilog2 x\<close> is the exponent of the
  leading bit of \<open>x\<close>.
\<close>

definition ilog2 :: "real \<Rightarrow> int" where
  "ilog2 x =
     (if 1 \<le> \<bar>x\<bar> then bitlen \<lfloor>\<bar>x\<bar>\<rfloor> - 1
      else - bitlen (\<lceil>1 / \<bar>x\<bar>\<rceil> - 1))"

definition round_half_even :: "real \<Rightarrow> int" where
  "round_half_even x =
     (let f = \<lfloor>x\<rfloor>; r = x - of_int f
      in if r < 1 / 2 then f else if 1 / 2 < r then f + 1 else if even f then f else f + 1)"

text \<open>The spacing of the binary64 values at \<open>x\<close>: 52 bits below its leading bit.\<close>

definition ulp :: "real \<Rightarrow> real" where
  "ulp x = 2 powi (max (ilog2 x) (- 1022) - 52)"

definition round_double :: "real \<Rightarrow> real" where
  "round_double x = (if x = 0 then 0 else of_int (round_half_even (x / ulp x)) * ulp x)"

definition fround :: "pyfloat \<Rightarrow> pyfloat" where
  "fround x =
     (case x of
        Fin a \<Rightarrow>
          if 2 ^ 1024 \<le> round_double a then PInf
          else if round_double a \<le> - (2 ^ 1024) then NInf
          else Fin (round_double a)
      | _ \<Rightarrow> x)"

section \<open>Exceptions\<close>

text \<open>
  A function that can raise returns \<open>Inl\<close> of the exception or \<open>Inr\<close> of its value.
  \<open>ExternalError\<close> stands for whatever the SQLite, imaging and tiling libraries
  raise.
\<close>

datatype error = ValueError | IndexError | TypeError | ZeroDivisionError
  | OverflowError | StopIteration | ExternalError

definition bind :: "error + 'a \<Rightarrow> ('a \<Rightarrow> error + 'b) \<Rightarrow> error + 'b" where
  "bind m f = (case m of Inl e \<Rightarrow> Inl e | Inr x \<Rightarrow> f x)"

text \<open>
  \<^verbatim>\<open>a / b\<close> on Python floats raises on a zero divisor, and its quotient is rounded and
  overflows to an infinity; \<^verbatim>\<open>int(x)\<close> truncates towards zero and raises on an infinity
  and on NaN.
\<close>

definition py_truediv :: "pyfloat \<Rightarrow> pyfloat \<Rightarrow> error + pyfloat" where
  "py_truediv a b = (if b = Fin 0 then Inl ZeroDivisionError else Inr (fround (fdiv a b)))"

fun py_int :: "pyfloat \<Rightarrow> error + int" where
  "py_int (Fin a) = Inr (if 0 \<le> a then \<lfloor>a\<rfloor> else \<lceil>a\<rceil>)"
| "py_int PInf = Inl OverflowError"
| "py_int NInf = Inl OverflowError"
| "py_int NaN = Inl ValueError"

section \<open>NumPy arrays\<close>

text \<open>
  A one-dimensional array of floats is a list, a matrix a list of rows. Elementwise
  operations broadcast an array of length one and raise \<^verbatim>\<open>ValueError\<close> on any
  other pair of different lengths.
\<close>

type_synonym ndarray = "pyfloat list"

type_synonym matrix = "pyfloat list list"

definition broadcast :: "(pyfloat \<Rightarrow> pyfloat \<Rightarrow> pyfloat) \<Rightarrow> ndarray \<Rightarrow> ndarray \<Rightarrow> error + ndarray" where
  "broadcast f a b =
     (if length a = length b then Inr (map2 f a b)
      else if length a = 1 then Inr (map (f (hd a)) b)
      else if length b = 1 then Inr (map (\<lambda>x. f x (hd b)) a)
      else Inl ValueError)"

definition np_add :: "ndarray \<Rightarrow> ndarray \<Rightarrow> error + ndarray" where
  "np_add a b = broadcast fadd a b"

text \<open>A scalar times an array.\<close>

definition np_scale :: "pyfloat \<Rightarrow> ndarray \<Rightarrow> ndarray" where
  "np_scale c a = map (fmul c) a"

text \<open>
  The matrix product \<^verbatim>\<open>@\<close>, of two matrices and of a matrix and a vector, on operands
  whose shapes agree (the program only multiplies 3 by 3 matrices and vectors of length
  3), and the transpose \<^verbatim>\<open>.T\<close>.
\<close>

definition dot :: "ndarray \<Rightarrow> ndarray \<Rightarrow> pyfloat" where
  "dot u v = foldl fadd (Fin 0) (map2 fmul u v)"

definition mat_vec :: "matrix \<Rightarrow> ndarray \<Rightarrow> ndarray" where
  "mat_vec m v = map (\<lambda>row. dot row v) m"

definition mat_T :: "matrix \<Rightarrow> matrix" where
  "mat_T m =
     (case m of [] \<Rightarrow> [] | r # _ \<Rightarrow> map (\<lambda>j. map (\<lambda>row. row ! j) m) [0..<length r])"

definition mat_mul :: "matrix \<Rightarrow> matrix \<Rightarrow> matrix" where
  "mat_mul a b = map (\<lambda>row. map (\<lambda>col. dot row col) (mat_T b)) a"

section \<open>terrain\_checker.py: the elevation decoding\<close>

text \<open>
  \<^verbatim>\<open>-10000 + ((r * 256 * 256 + g * 256 + b) * 0.1)\<close>: the integer is converted to a
  float, multiplied by the float nearest to 0.1, and the product, rounded, is added to
  -10000, which rounds once more.
\<close>

definition decode_elevation :: "int \<Rightarrow> int \<Rightarrow> int \<Rightarrow> pyfloat" where
  "decode_elevation r g b =
     Fin (round_double (- 10000 +
       round_double (round_double (of_int (r * 256 * 256 + g * 256 + b)) * round_double (1 / 10))))"

section \<open>terrain\_checker.py: the tile store\<close>

text \<open>
  The SQLite cursor is a parameter. The code sends it three kinds of statement: the list
  of tables, \<^verbatim>\<open>PRAGMA table_info\<close> of a table (answered here by the column names, in
  order), and the tile query
  \<^verbatim>\<open>SELECT * FROM t WHERE zoom_level=? AND tile_column=? AND tile_row=?\<close> with its three
  parameters, answered by \<^verbatim>\<open>fetchone\<close>: the first row or nothing. Every statement can
  raise. The statements sent are recorded in a log, in order.
\<close>

datatype sqlval = SqlNull | SqlInt int | SqlText string | SqlBlob "nat list"

datatype sql = ListTables | TableInfo string | SelectTile string int int int

record Cursor =
  list_tables :: "error + string list"
  table_info :: "string \<Rightarrow> error + string list"
  select_tile :: "string \<Rightarrow> int \<Rightarrow> int \<Rightarrow> int \<Rightarrow> error + sqlval list option"

record TerrainChecker =
  cursor :: Cursor

text \<open>\<^verbatim>\<open>'tile' in col.lower()\<close>, on ASCII names.\<close>

definition lower_char :: "char \<Rightarrow> char" where
  "lower_char c =
     (let n = (of_char c :: nat) in if 65 \<le> n \<and> n \<le> 90 then char_of (n + 32) else c)"

definition has_tile :: "string \<Rightarrow> bool" where
  "has_tile col = sublist ''tile'' (map lower_char col)"

text \<open>
  \<^verbatim>\<open>cursor.execute\<close> and the fetch that follows it: the statement goes to the store and
  into the log in one step, and the store's answer to that very statement comes back. The
  functions below reach the store through these three only.
\<close>

definition run_list_tables :: "Cursor \<Rightarrow> sql list \<Rightarrow> (error + string list) \<times> sql list" where
  "run_list_tables cur sent = (list_tables cur, sent @ [ListTables])"

definition run_table_info ::
  "Cursor \<Rightarrow> string \<Rightarrow> sql list \<Rightarrow> (error + string list) \<times> sql list" where
  "run_table_info cur table sent = (table_info cur table, sent @ [TableInfo table])"

definition run_select_tile ::
  "Cursor \<Rightarrow> string \<Rightarrow> int \<Rightarrow> int \<Rightarrow> int \<Rightarrow> sql list
    \<Rightarrow> (error + sqlval list option) \<times> sql list" where
  "run_select_tile cur table z x y sent =
     (select_tile cur table z x y, sent @ [SelectTile table z x y])"

text \<open>
  The loop that looks for the table with the tiles: the first table one of whose columns
  has \<^verbatim>\<open>tile\<close> in its name.
\<close>

fun find_tile_table :: "Cursor \<Rightarrow> string list \<Rightarrow> sql list \<Rightarrow> (error + string option) \<times> sql list" where
  "find_tile_table cur [] sent = (Inr None, sent)"
| "find_tile_table cur (table # tables) sent =
     (case run_table_info cur table sent of
        (Inl e, sent') \<Rightarrow> (Inl e, sent')
      | (Inr columns, sent') \<Rightarrow>
          if list_ex has_tile columns then (Inr (Some table), sent')
          else find_tile_table cur tables sent')"

text \<open>\<^verbatim>\<open>next(i for i, col in enumerate(columns) if ...)\<close>; nothing found is \<^verbatim>\<open>StopIteration\<close>.\<close>

fun first_index :: "('a \<Rightarrow> bool) \<Rightarrow> 'a list \<Rightarrow> nat option" where
  "first_index P [] = None"
| "first_index P (x # xs) = (if P x then Some 0 else map_option Suc (first_index P xs))"

text \<open>A value read from a row, as Python sees it: SQL \<^verbatim>\<open>NULL\<close> is \<^verbatim>\<open>None\<close>.\<close>

definition py_of_sql :: "sqlval \<Rightarrow> sqlval option" where
  "py_of_sql v = (if v = SqlNull then None else Some v)"

text \<open>
  \<^verbatim>\<open>_get_tile_data\<close>, with the log of the statements it sent. Every exception ends in
  \<^verbatim>\<open>None\<close>: a negative zoom (\<^verbatim>\<open>1 << z\<close> raises), a statement that raises, no column
  found, an index beyond the row. An empty table name and an empty row are false in
  \<^verbatim>\<open>if tile_table\<close> and \<^verbatim>\<open>if row\<close>.
\<close>

definition get_tile_data :: "Cursor \<Rightarrow> int \<Rightarrow> int \<Rightarrow> int \<Rightarrow> sqlval option \<times> sql list" where
  "get_tile_data cur x y z =
     (if z < 0 then (None, [])
      else
        let y' = 2 ^ nat z - 1 - y in
        case run_list_tables cur [] of
          (Inl e, sent) \<Rightarrow> (None, sent)
        | (Inr tables, sent) \<Rightarrow>
            (case find_tile_table cur tables sent of
               (Inl e, sent) \<Rightarrow> (None, sent)
             | (Inr None, sent) \<Rightarrow> (None, sent)
             | (Inr (Some tile_table), sent) \<Rightarrow>
                 if tile_table = [] then (None, sent)
                 else
                   (case run_select_tile cur tile_table z x y' sent of
                      (Inl e, sent) \<Rightarrow> (None, sent)
                    | (Inr None, sent) \<Rightarrow> (None, sent)
                    | (Inr (Some row), sent) \<Rightarrow>
                        if row = [] then (None, sent)
                        else
                          (case run_table_info cur tile_table sent of
                             (Inl e, sent) \<Rightarrow> (None, sent)
                           | (Inr columns, sent) \<Rightarrow>
                               (case first_index has_tile columns of
                                  None \<Rightarrow> (None, sent)
                                | Some i \<Rightarrow>
                                    if i < length row then (py_of_sql (row ! i), sent)
                                    else (None, sent))))))"


section \<open>terrain\_checker.py: the elevation lookup\<close>

text \<open>
  The tiling and imaging libraries are parameters: \<^verbatim>\<open>mercantile.tile(lon, lat, zoom)\<close>
  gives the tile's column and row, \<^verbatim>\<open>mercantile.bounds(x, y, z)\<close> its bounding box,
  \<^verbatim>\<open>Image.open(BytesIO(data))\<close> an image with a width, a height and \<^verbatim>\<open>getpixel\<close>,
  which returns the bands of a pixel. Each can raise.
\<close>

record Image =
  width :: int
  height :: int
  getpixel :: "int \<Rightarrow> int \<Rightarrow> error + int list"

record LngLatBbox =
  west :: pyfloat
  south :: pyfloat
  east :: pyfloat
  north :: pyfloat

record Libraries =
  mercantile_tile :: "pyfloat \<Rightarrow> pyfloat \<Rightarrow> int \<Rightarrow> error + int \<times> int"
  mercantile_bounds :: "int \<Rightarrow> int \<Rightarrow> int \<Rightarrow> error + LngLatBbox"
  Image_open :: "sqlval \<Rightarrow> error + Image"

definition get_tile_coords :: "Libraries \<Rightarrow> pyfloat \<Rightarrow> pyfloat \<Rightarrow> int \<Rightarrow> error + int \<times> int \<times> int" where
  "get_tile_coords libs lat lon zoom =
     bind (mercantile_tile libs lon lat zoom) (\<lambda>(x, y). Inr (x, y, zoom))"

text \<open>
  \<^verbatim>\<open>(lon - bbox.west) / (bbox.east - bbox.west) * img.width\<close> and its like for the
  latitude, every operation rounded: the float that \<^verbatim>\<open>int\<close> then truncates. For a box
  of no width the quotient is an infinity or NaN, which \<^verbatim>\<open>int\<close> refuses (on Python floats
  the division raises): the lookup ends in \<^verbatim>\<open>None\<close> either way.
\<close>

definition pixel_index :: "pyfloat \<Rightarrow> pyfloat \<Rightarrow> pyfloat \<Rightarrow> int \<Rightarrow> pyfloat" where
  "pixel_index c lo hi n =
     fround (fmul (fround (fdiv (fround (fsub c lo)) (fround (fsub hi lo)))) (Fin (of_int n)))"

text \<open>
  The rest of the \<^verbatim>\<open>try\<close> block of \<^verbatim>\<open>get_elevation\<close>, once the tile is there: the image,
  the bounding box, the pixel under the point, its three bands, the decoding. The
  unpacking \<^verbatim>\<open>r, g, b = ...\<close> raises unless the pixel has three bands.
\<close>

definition read_elevation ::
  "Libraries \<Rightarrow> sqlval \<Rightarrow> int \<Rightarrow> int \<Rightarrow> int \<Rightarrow> pyfloat \<Rightarrow> pyfloat \<Rightarrow> error + pyfloat" where
  "read_elevation libs tile_data x y z lat lon =
     bind (Image_open libs tile_data) (\<lambda>img.
     bind (mercantile_bounds libs x y z) (\<lambda>bbox.
     bind (py_int (pixel_index lon (west bbox) (east bbox) (width img))) (\<lambda>px.
     bind (py_int (pixel_index lat (north bbox) (south bbox) (height img))) (\<lambda>py.
     bind (getpixel img px py) (\<lambda>pixel.
       case pixel of
         [r, g, b] \<Rightarrow> Inr (decode_elevation r g b)
       | _ \<Rightarrow> Inl ValueError)))))"

text \<open>
  \<^verbatim>\<open>get_elevation\<close> with the log of the statements sent to the store, and without. The
  zoom is the default of \<^verbatim>\<open>_get_tile_coords\<close>, 14. Every exception ends in \<^verbatim>\<open>None\<close>.
\<close>

definition get_elevation_log ::
  "Libraries \<Rightarrow> TerrainChecker \<Rightarrow> pyfloat \<Rightarrow> pyfloat \<Rightarrow> pyfloat option \<times> sql list" where
  "get_elevation_log libs self lat lon =
     (case get_tile_coords libs lat lon 14 of
        Inl e \<Rightarrow> (None, [])
      | Inr (x, y, z) \<Rightarrow>
          (case get_tile_data (cursor self) x y z of
             (None, sent) \<Rightarrow> (None, sent)
           | (Some tile_data, sent) \<Rightarrow>
               (case read_elevation libs tile_data x y z lat lon of
                  Inl e \<Rightarrow> (None, sent)
                | Inr elevation \<Rightarrow> (Some elevation, sent))))"

definition get_elevation :: "Libraries \<Rightarrow> TerrainChecker \<Rightarrow> pyfloat \<Rightarrow> pyfloat \<Rightarrow> pyfloat option" where
  "get_elevation libs self lat lon = fst (get_elevation_log libs self lat lon)"

section \<open>terrain\_checker.py: the collision check\<close>

text \<open>
  \<^verbatim>\<open>check_collision\<close>. The three reads of the point come first and are outside any
  \<^verbatim>\<open>try\<close>: a point of fewer than three elements raises \<^verbatim>\<open>IndexError\<close>.
\<close>

definition in_coverage :: "pyfloat \<Rightarrow> pyfloat \<Rightarrow> bool" where
  "in_coverage lat lon =
     (fle (Fin 41.81104) lat \<and> fle lat (Fin 81.47299) \<and>
      fle (Fin 19.3951) lon \<and> fle lon (Fin 46.43616))"

definition check_collision :: "Libraries \<Rightarrow> TerrainChecker \<Rightarrow> ndarray \<Rightarrow> error + bool \<times> pyfloat" where
  "check_collision libs self trajectory_point =
     (if length trajectory_point < 3 then Inl IndexError
      else
        let lat = np_degrees (trajectory_point ! 0);
            lon = np_degrees (trajectory_point ! 1);
            alt = trajectory_point ! 2
        in if \<not> in_coverage lat lon then Inr (False, PInf)
           else
             case get_elevation libs self lat lon of
               None \<Rightarrow> Inr (False, PInf)
             | Some terrain_height \<Rightarrow>
                 let distance_to_terrain = fsub alt terrain_height
                 in Inr (flt distance_to_terrain (Fin 0), distance_to_terrain))"

section \<open>terrain\_checker.py: the warning level\<close>

text \<open>
  \<^verbatim>\<open>TerrainChecker.get_collision_warning_level\<close>: an \<^verbatim>\<open>if/elif/else\<close> chain of three
  comparisons; the levels are the Python ints 0 (none), 1 (low), 2 (medium), 3 (high).
\<close>

definition get_collision_warning_level :: "pyfloat \<Rightarrow> int" where
  "get_collision_warning_level distance =
     (if fgt distance (Fin 1000) then 0
      else if fgt distance (Fin 500) then 1
      else if fgt distance (Fin 200) then 2
      else 3)"

section \<open>matrix\_to\_earth.py\<close>

text \<open>\<^verbatim>\<open>get_rotation_matrix\<close>: the three factors as the source writes them, and their product.\<close>

definition R_x :: "pyfloat \<Rightarrow> matrix" where
  "R_x roll =
     [[Fin 1, Fin 0, Fin 0],
      [Fin 0, fcos roll, fneg (fsin roll)],
      [Fin 0, fsin roll, fcos roll]]"

definition R_y :: "pyfloat \<Rightarrow> matrix" where
  "R_y pitch =
     [[fcos pitch, Fin 0, fsin pitch],
      [Fin 0, Fin 1, Fin 0],
      [fneg (fsin pitch), Fin 0, fcos pitch]]"

definition R_z :: "pyfloat \<Rightarrow> matrix" where
  "R_z heading =
     [[fcos heading, fneg (fsin heading), Fin 0],
      [fsin heading, fcos heading, Fin 0],
      [Fin 0, Fin 0, Fin 1]]"

definition get_rotation_matrix :: "pyfloat \<Rightarrow> pyfloat \<Rightarrow> pyfloat \<Rightarrow> matrix" where
  "get_rotation_matrix roll pitch heading =
     mat_mul (mat_mul (R_z heading) (R_y pitch)) (R_x roll)"

section \<open>equation\_of\_flight.py\<close>

text \<open>\<^verbatim>\<open>FlightEquations\<close>: the two constants its constructor sets.\<close>

record FlightEquations =
  g :: real
  R_earth :: real

definition FlightEquations_init :: FlightEquations where
  "FlightEquations_init = \<lparr>g = 9.81, R_earth = 6371000\<rparr>"

text \<open>
  \<^verbatim>\<open>calculate_derivatives\<close>. The two unpacking assignments raise \<^verbatim>\<open>ValueError\<close> on a
  state of fewer than nine elements; on a longer state the slices take the first nine.
  The time \<open>t\<close> is not used.
\<close>

definition calculate_derivatives :: "FlightEquations \<Rightarrow> ndarray \<Rightarrow> pyfloat \<Rightarrow> error + ndarray" where
  "calculate_derivatives self state t =
     (if length state < 9 then Inl ValueError
      else
        let lat = state ! 0; lon = state ! 1; alt = state ! 2;
            v_body = [state ! 3, state ! 4, state ! 5];
            roll = state ! 6; pitch = state ! 7; heading = state ! 8;
            R = get_rotation_matrix roll pitch heading;
            v_earth = mat_vec R v_body;
            lat_scale = fdiv (Fin 1) (fadd (Fin (R_earth self)) alt);
            lon_scale = fdiv (Fin 1) (fmul (fadd (Fin (R_earth self)) alt) (fcos lat));
            d_lat = fmul (v_earth ! 0) lat_scale;
            d_lon = fmul (v_earth ! 1) lon_scale;
            d_alt = v_earth ! 2;
            g_earth = [Fin 0, Fin 0, Fin (- g self)];
            d_v_body = mat_vec (mat_T R) g_earth;
            d_roll = fmul (Fin (- 0.5)) roll;
            d_pitch = fmul (Fin (- 0.3)) pitch;
            v_horiz = fsqrt (fadd (fmul (v_body ! 0) (v_body ! 0)) (fmul (v_body ! 1) (v_body ! 1)));
            d_heading =
              (if fgt v_horiz (Fin (1 / 1000000)) then
                 let target_heading = farctan2 (v_body ! 1) (v_body ! 0);
                     heading_diff = fsub target_heading heading;
                     heading_diff' = farctan2 (fsin heading_diff) (fcos heading_diff)
                 in fmul (Fin 0.2) heading_diff'
               else Fin 0)
        in Inr [d_lat, d_lon, d_alt,
                d_v_body ! 0, d_v_body ! 1, d_v_body ! 2,
                d_roll, d_pitch, d_heading])"

section \<open>math/RK4.py\<close>

text \<open>
  \<^verbatim>\<open>rk4_step\<close>. The derivative function is any callable: it may raise, and the array it
  returns may have any length. Each \<^verbatim>\<open>+\<close> broadcasts or raises.
\<close>

definition rk4_step ::
  "(ndarray \<Rightarrow> pyfloat \<Rightarrow> error + ndarray) \<Rightarrow> ndarray \<Rightarrow> pyfloat \<Rightarrow> pyfloat \<Rightarrow> error + ndarray" where
  "rk4_step derivatives state dt t =
     bind (derivatives state t) (\<lambda>k1.
     bind (np_add state (np_scale (fdiv dt (Fin 2)) k1)) (\<lambda>s2.
     bind (derivatives s2 (fadd t (fdiv dt (Fin 2)))) (\<lambda>k2.
     bind (np_add state (np_scale (fdiv dt (Fin 2)) k2)) (\<lambda>s3.
     bind (derivatives s3 (fadd t (fdiv dt (Fin 2)))) (\<lambda>k3.
     bind (np_add state (np_scale dt k3)) (\<lambda>s4.
     bind (derivatives s4 (fadd t dt)) (\<lambda>k4.
     bind (np_add k1 (np_scale (Fin 2) k2)) (\<lambda>a1.
     bind (np_add a1 (np_scale (Fin 2) k3)) (\<lambda>a2.
     bind (np_add a2 k4) (\<lambda>a3.
     np_add state (np_scale (fdiv dt (Fin 6)) a3)))))))))))"

section \<open>math/trajectory\_prediction.py\<close>

text \<open>\<^verbatim>\<open>TrajectoryPredictor\<close>: its constructor stores a \<^verbatim>\<open>FlightEquations\<close>.\<close>

record TrajectoryPredictor =
  equations :: FlightEquations

definition TrajectoryPredictor_init :: TrajectoryPredictor where
  "TrajectoryPredictor_init = \<lparr>equations = FlightEquations_init\<rparr>"

text \<open>
  The \<^verbatim>\<open>for\<close> loop of \<^verbatim>\<open>predict_trajectory\<close>, by the number of iterations left: a step,
  the new state appended, the time advanced.
\<close>

fun predict_loop ::
  "FlightEquations \<Rightarrow> nat \<Rightarrow> ndarray list \<Rightarrow> ndarray \<Rightarrow> pyfloat \<Rightarrow> pyfloat \<Rightarrow> error + ndarray list" where
  "predict_loop eq 0 trajectory state dt t = Inr trajectory"
| "predict_loop eq (Suc n) trajectory state dt t =
     bind (rk4_step (calculate_derivatives eq) state dt t) (\<lambda>state'.
       predict_loop eq n (trajectory @ [state']) state' dt (fadd t dt))"

text \<open>
  \<^verbatim>\<open>predict_trajectory\<close>, on values: \<^verbatim>\<open>steps = int(prediction_time / dt)\<close>, and
  \<^verbatim>\<open>range(steps)\<close> is empty for a negative \<open>steps\<close>.
\<close>

definition predict_trajectory ::
  "TrajectoryPredictor \<Rightarrow> ndarray \<Rightarrow> pyfloat \<Rightarrow> pyfloat \<Rightarrow> error + ndarray list" where
  "predict_trajectory self initial_state dt prediction_time =
     bind (py_truediv prediction_time dt) (\<lambda>q.
     bind (py_int q) (\<lambda>steps.
       predict_loop (equations self) (nat steps) [initial_state] initial_state dt (Fin 0)))"

section \<open>math/trajectory\_prediction.py with array identities\<close>

text \<open>
  The same function on a store of array objects, for what it does to its argument. An
  array is an address; \<^verbatim>\<open>.copy()\<close> and every arithmetic result is a new object at a
  fresh address. \<^verbatim>\<open>calculate_derivatives\<close> and \<^verbatim>\<open>rk4_step\<close> only read the arrays they
  are given, so they stay functions of the arrays' contents.
\<close>

record heap =
  cells :: "nat \<Rightarrow> ndarray"
  next_id :: nat

definition alloc :: "heap \<Rightarrow> ndarray \<Rightarrow> heap \<times> nat" where
  "alloc h v = (h\<lparr>cells := (cells h)(next_id h := v), next_id := Suc (next_id h)\<rparr>, next_id h)"

definition np_copy :: "heap \<Rightarrow> nat \<Rightarrow> heap \<times> nat" where
  "np_copy h a = alloc h (cells h a)"

fun predict_loop_h ::
  "FlightEquations \<Rightarrow> nat \<Rightarrow> heap \<Rightarrow> nat list \<Rightarrow> nat \<Rightarrow> pyfloat \<Rightarrow> pyfloat \<Rightarrow> error + heap \<times> nat list" where
  "predict_loop_h eq 0 h trajectory state dt t = Inr (h, trajectory)"
| "predict_loop_h eq (Suc n) h trajectory state dt t =
     bind (rk4_step (calculate_derivatives eq) (cells h state) dt t) (\<lambda>v.
       let (h1, state') = alloc h v;
           (h2, c) = np_copy h1 state'
       in predict_loop_h eq n h2 (trajectory @ [c]) state' dt (fadd t dt))"

definition predict_trajectory_h ::
  "TrajectoryPredictor \<Rightarrow> heap \<Rightarrow> nat \<Rightarrow> pyfloat \<Rightarrow> pyfloat \<Rightarrow> error + heap \<times> nat list" where
  "predict_trajectory_h self h initial_state dt prediction_time =
     bind (py_truediv prediction_time dt) (\<lambda>q.
     bind (py_int q) (\<lambda>steps.
       let (h1, c0) = np_copy h initial_state;
           (h2, state) = np_copy h1 initial_state
       in predict_loop_h (equations self) (nat steps) h2 [c0] state dt (Fin 0)))"

section \<open>math/test.py: the scan of a predicted trajectory\<close>

text \<open>
  What \<^verbatim>\<open>predict_from_point\<close> prints is a list of reports: a warning with its level,
  the time it prints and the distance, and the collision alert after which the loop
  breaks.
\<close>

datatype report = Warning int pyfloat pyfloat | CollisionAlert

text \<open>An index into a NumPy array: a negative index counts from the end.\<close>

definition np_getitem :: "'a list \<Rightarrow> int \<Rightarrow> error + 'a" where
  "np_getitem xs i =
     (if 0 \<le> i \<and> i < int (length xs) then Inr (xs ! nat i)
      else if i < 0 \<and> - int (length xs) \<le> i then Inr (xs ! nat (int (length xs) + i))
      else Inl IndexError)"

text \<open>The loop over \<^verbatim>\<open>enumerate(trajectory)\<close>, from index \<open>i\<close> on.\<close>

fun scan_trajectory :: "Libraries \<Rightarrow> TerrainChecker \<Rightarrow> nat \<Rightarrow> ndarray list \<Rightarrow> error + report list" where
  "scan_trajectory libs terrain_checker i [] = Inr []"
| "scan_trajectory libs terrain_checker i (point # rest) =
     bind (check_collision libs terrain_checker point) (\<lambda>(has_collision, distance).
       let warning_level = get_collision_warning_level distance;
           out = (if 0 < warning_level
                  then [Warning warning_level (fmul (Fin (of_nat i)) (Fin 0.1)) distance]
                  else [])
       in if has_collision then Inr (out @ [CollisionAlert])
          else bind (scan_trajectory libs terrain_checker (Suc i) rest) (\<lambda>more.
                 Inr (out @ more)))"

text \<open>
  \<^verbatim>\<open>predict_from_point\<close>: the state from a row of the navigation data (a row of fewer
  than nine columns raises \<^verbatim>\<open>IndexError\<close>), the prediction with \<^verbatim>\<open>dt=0.01\<close> and
  \<^verbatim>\<open>prediction_time=60.0\<close>, the scan. It returns the trajectory; the reports are what it
  printed.
\<close>

definition predict_from_point ::
  "Libraries \<Rightarrow> TrajectoryPredictor \<Rightarrow> ndarray list \<Rightarrow> int \<Rightarrow> TerrainChecker
    \<Rightarrow> error + ndarray list \<times> report list" where
  "predict_from_point libs predictor nav_data point_index terrain_checker =
     bind (np_getitem nav_data point_index) (\<lambda>current_data.
       if length current_data < 9 then Inl IndexError
       else
         let initial_state =
               [np_radians (current_data ! 6), np_radians (current_data ! 7),
                current_data ! 8,
                current_data ! 3, current_data ! 4, current_data ! 5,
                np_radians (current_data ! 0), np_radians (current_data ! 1),
                np_radians (current_data ! 2)]
         in bind (predict_trajectory predictor initial_state (Fin 0.01) (Fin 60)) (\<lambda>trajectory.
            bind (scan_trajectory libs terrain_checker 0 trajectory) (\<lambda>reports.
              Inr (trajectory, reports))))"

section \<open>Formulas of the specification\<close>

text \<open>
  The specification states the dynamics and the integrator on real numbers and on states
  of one shape. These definitions follow its words; the theorems compare them with the
  code above.
\<close>

definition vadd :: "ndarray \<Rightarrow> ndarray \<Rightarrow> ndarray" where
  "vadd a b = map2 fadd a b"

type_synonym rmatrix = "real list list"

definition rdot :: "real list \<Rightarrow> real list \<Rightarrow> real" where
  "rdot u v = sum_list (map2 (*) u v)"

definition rmat_vec :: "rmatrix \<Rightarrow> real list \<Rightarrow> real list" where
  "rmat_vec m v = map (\<lambda>row. rdot row v) m"

definition rmat_T :: "rmatrix \<Rightarrow> rmatrix" where
  "rmat_T m =
     (case m of [] \<Rightarrow> [] | r # _ \<Rightarrow> map (\<lambda>j. map (\<lambda>row. row ! j) m) [0..<length r])"

definition rmat_mul :: "rmatrix \<Rightarrow> rmatrix \<Rightarrow> rmatrix" where
  "rmat_mul a b = map (\<lambda>row. map (\<lambda>col. rdot row col) (rmat_T b)) a"

text \<open>The right-handed rotations by an angle about the X, Y and Z axes.\<close>

definition rot_x :: "real \<Rightarrow> rmatrix" where
  "rot_x a = [[1, 0, 0], [0, cos a, - sin a], [0, sin a, cos a]]"

definition rot_y :: "real \<Rightarrow> rmatrix" where
  "rot_y a = [[cos a, 0, sin a], [0, 1, 0], [- sin a, 0, cos a]]"

definition rot_z :: "real \<Rightarrow> rmatrix" where
  "rot_z a = [[cos a, - sin a, 0], [sin a, cos a, 0], [0, 0, 1]]"

definition wrap_angle :: "real \<Rightarrow> real" where
  "wrap_angle d = atan2 (sin d) (cos d)"

text \<open>
  The derivative of section 4.1 at a finite state. The two quotients are float
  divisions, so that a zero denominator gives what the formula gives in floats.
\<close>

definition derivative_formula ::
  "FlightEquations \<Rightarrow> real \<Rightarrow> real \<Rightarrow> real \<Rightarrow> real \<Rightarrow> real \<Rightarrow> real \<Rightarrow> real \<Rightarrow> real \<Rightarrow> real \<Rightarrow> ndarray" where
  "derivative_formula self lat lon alt Vx Vy Vz roll pitch heading =
     (let R = rmat_mul (rmat_mul (rot_z heading) (rot_y pitch)) (rot_x roll);
          v_earth = rmat_vec R [Vx, Vy, Vz];
          dv_body = rmat_vec (rmat_T R) [0, 0, - g self];
          dHeading = (if 1 / 1000000 < sqrt (Vx\<^sup>2 + Vy\<^sup>2)
                      then 0.2 * wrap_angle (atan2 Vy Vx - heading) else 0)
      in [fdiv (Fin (v_earth ! 0)) (Fin (R_earth self + alt)),
          fdiv (Fin (v_earth ! 1)) (Fin ((R_earth self + alt) * cos lat)),
          Fin (v_earth ! 2),
          Fin (dv_body ! 0), Fin (dv_body ! 1), Fin (dv_body ! 2),
          Fin (- 0.5 * roll), Fin (- 0.3 * pitch), Fin dHeading])"

section \<open>A store and libraries for the examples\<close>

text \<open>
  A store with a metadata table and a table of tiles whose first column holds the tile
  and which has a tile at every address, a store without tables, and libraries that
  answer every call with the same tile, bounding box and image, every pixel of which is
  the given one.
\<close>

definition example_cursor :: Cursor where
  "example_cursor =
     \<lparr>list_tables = Inr [''metadata'', ''tiles''],
      table_info = (\<lambda>t. if t = ''tiles''
         then Inr [''tile_data'', ''zoom_level'', ''tile_column'', ''tile_row'']
         else Inr [''name'', ''value'']),
      select_tile = (\<lambda>t z x y. Inr (Some [SqlBlob [], SqlInt z, SqlInt x, SqlInt y]))\<rparr>"

definition example_checker :: TerrainChecker where
  "example_checker = \<lparr>cursor = example_cursor\<rparr>"

definition example_image :: "int list \<Rightarrow> Image" where
  "example_image pixel = \<lparr>width = 256, height = 256, getpixel = (\<lambda>px py. Inr pixel)\<rparr>"

definition example_libs :: "int list \<Rightarrow> Libraries" where
  "example_libs pixel =
     \<lparr>mercantile_tile = (\<lambda>lon lat zoom. Inr (9000, 5000)),
      mercantile_bounds = (\<lambda>x y z. Inr \<lparr>west = Fin 0, south = Fin 0, east = Fin 90, north = Fin 90\<rparr>),
      Image_open = (\<lambda>v. case v of SqlBlob _ \<Rightarrow> Inr (example_image pixel) | _ \<Rightarrow> Inl TypeError)\<rparr>"

text \<open>
  The store of the example with the tile \<open>(14, x, 5000)\<close> only, stored as the storage
  convention has it, at row \<open>2\<^sup>1\<^sup>4 - 1 - 5000 = 11383\<close>: every other row has no tile.
\<close>

definition flipped_row_cursor :: Cursor where
  "flipped_row_cursor =
     \<lparr>list_tables = Inr [''metadata'', ''tiles''],
      table_info = (\<lambda>t. if t = ''tiles''
         then Inr [''tile_data'', ''zoom_level'', ''tile_column'', ''tile_row'']
         else Inr [''name'', ''value'']),
      select_tile = (\<lambda>t z x y.
         if y = 11383 then Inr (Some [SqlBlob [], SqlInt z, SqlInt x, SqlInt y]) else Inr None)\<rparr>"

definition empty_cursor :: Cursor where
  "empty_cursor =
     \<lparr>list_tables = Inr [], table_info = (\<lambda>t. Inl ExternalError),
      select_tile = (\<lambda>t z x y. Inl ExternalError)\<rparr>"

text \<open>A state, and a store of arrays whose only object, at address 0, is that state.\<close>

definition example_state :: ndarray where
  "example_state = [Fin 0, Fin 0, Fin 1000, Fin 50, Fin 0, Fin 0, Fin 0, Fin 0, Fin 0]"

definition example_heap :: heap where
  "example_heap = \<lparr>cells = (\<lambda>a. if a = 0 then example_state else []), next_id = 1\<rparr>"

section \<open>Properties of the warning level\<close>

lemma fgt_Fin [simp]: "fgt (Fin a) (Fin b) = (b < a)"
  by (simp add: fgt_def)

lemma fgt_special [simp]:
  "fgt NaN b = False" "fgt PInf (Fin r) = True" "fgt NInf b = False"
  by (cases b; simp add: fgt_def)+

text \<open>
  C3. The warning level follows the table of the specification: above 1000 none (0), in
  (500, 1000] low (1), in (200, 500] medium (2), at most 200 high (3); the listed
  boundary clearances map to the listed levels.
\<close>

theorem warning_level_table:
  "(fgt c (Fin 1000) \<longrightarrow> get_collision_warning_level c = 0) \<and>
   (fgt c (Fin 500) \<and> fle c (Fin 1000) \<longrightarrow> get_collision_warning_level c = 1) \<and>
   (fgt c (Fin 200) \<and> fle c (Fin 500) \<longrightarrow> get_collision_warning_level c = 2) \<and>
   (fle c (Fin 200) \<longrightarrow> get_collision_warning_level c = 3) \<and>
   map (\<lambda>x. get_collision_warning_level (Fin x))
     [1001, 1000, 999, 501, 500, 499, 201, 200, 199, 0, -50]
   = [0, 1, 1, 1, 2, 2, 2, 3, 3, 3, 3]"
  by (cases c) (simp_all add: get_collision_warning_level_def)

theorem warning_level_table_witness:
  "fgt (Fin 1500) (Fin 1000) \<and> get_collision_warning_level (Fin 1500) = 0 \<and>
   fgt (Fin 750) (Fin 500) \<and> fle (Fin 750) (Fin 1000) \<and>
     get_collision_warning_level (Fin 750) = 1 \<and>
   fgt (Fin 350) (Fin 200) \<and> fle (Fin 350) (Fin 500) \<and>
     get_collision_warning_level (Fin 350) = 2 \<and>
   fle NInf (Fin 200) \<and> get_collision_warning_level NInf = 3"
  using warning_level_table [of "Fin 1500"] warning_level_table [of "Fin 750"]
    warning_level_table [of "Fin 350"] warning_level_table [of NInf]
  by simp

text \<open>
  C10. The warning level is defined on every float, the infinities and NaN included, and
  is one of 0, 1, 2, 3; plus infinity gives 0 and NaN gives 3, every comparison with NaN
  being false.
\<close>

theorem warning_level_total:
  "get_collision_warning_level d \<in> {0, 1, 2, 3} \<and>
   get_collision_warning_level PInf = 0 \<and>
   get_collision_warning_level NaN = 3 \<and>
   \<not> fgt NaN (Fin 1000) \<and> \<not> fgt NaN (Fin 500) \<and> \<not> fgt NaN (Fin 200)"
  by (simp add: get_collision_warning_level_def)

section \<open>Properties of the integrator\<close>

lemma bind_Inr [simp]: "bind (Inr x) f = f x"
  by (simp add: bind_def)

lemma bind_Inl [simp]: "bind (Inl e) f = Inl e"
  by (simp add: bind_def)

lemma np_add_same: "length a = length b \<Longrightarrow> np_add a b = Inr (vadd a b)"
  by (simp add: np_add_def broadcast_def vadd_def)

lemma length_vadd [simp]: "length (vadd a b) = min (length a) (length b)"
  by (simp add: vadd_def)

lemma length_np_scale [simp]: "length (np_scale c a) = length a"
  by (simp add: np_scale_def)

text \<open>
  C6. For every derivative function, state, step and time, where the derivative function
  returns derivatives of the state's shape, \<^verbatim>\<open>rk4_step\<close> returns
  \<open>s + dt/6 (k1 + 2 k2 + 2 k3 + k4)\<close> with \<open>k1 = f(s, t)\<close>,
  \<open>k2 = f(s + dt/2 k1, t + dt/2)\<close>, \<open>k3 = f(s + dt/2 k2, t + dt/2)\<close> and
  \<open>k4 = f(s + dt k3, t + dt)\<close>.
\<close>

theorem rk4_step_formula:
  assumes "derivatives s t = Inr k1" and "length k1 = length s"
    and "derivatives (vadd s (np_scale (fdiv dt (Fin 2)) k1)) (fadd t (fdiv dt (Fin 2))) = Inr k2"
    and "length k2 = length s"
    and "derivatives (vadd s (np_scale (fdiv dt (Fin 2)) k2)) (fadd t (fdiv dt (Fin 2))) = Inr k3"
    and "length k3 = length s"
    and "derivatives (vadd s (np_scale dt k3)) (fadd t dt) = Inr k4"
    and "length k4 = length s"
  shows "rk4_step derivatives s dt t =
    Inr (vadd s (np_scale (fdiv dt (Fin 6))
      (vadd (vadd (vadd k1 (np_scale (Fin 2) k2)) (np_scale (Fin 2) k3)) k4)))"
  using assms by (simp add: rk4_step_def np_add_same)

text \<open>The witness: one step of size 1 of \<open>x' = x\<close> from 1 gives 65/24.\<close>

theorem rk4_step_formula_witness:
  "rk4_step (\<lambda>s t. Inr s) [Fin 1] (Fin 1) (Fin 0) = Inr [Fin (65 / 24)]"
  using rk4_step_formula [of "\<lambda>s t. Inr s" "[Fin 1]" "Fin 0" "[Fin 1]" "Fin 1"
      "[Fin (3 / 2)]" "[Fin (7 / 4)]" "[Fin (11 / 4)]"]
  by (simp add: vadd_def np_scale_def)

section \<open>Properties of the dynamics\<close>

lemma fmul_recip: "fmul (Fin a) (fdiv (Fin 1) (Fin b)) = fdiv (Fin a) (Fin b)"
  by (simp add: signed_inf_def)

lemma calculate_derivatives_finite:
  "calculate_derivatives self
     [Fin lat, Fin lon, Fin alt, Fin Vx, Fin Vy, Fin Vz, Fin roll, Fin pitch, Fin heading] t =
   Inr (derivative_formula self lat lon alt Vx Vy Vz roll pitch heading)"
  unfolding calculate_derivatives_def derivative_formula_def
  apply (simp add: Let_def get_rotation_matrix_def R_x_def R_y_def R_z_def mat_mul_def
      mat_T_def mat_vec_def dot_def upt_rec rmat_mul_def rmat_T_def rmat_vec_def rdot_def
      rot_x_def rot_y_def rot_z_def wrap_angle_def fsub_def power2_eq_square
      not_sum_squares_lt_zero signed_inf_def del: fdiv.simps)
  apply (simp add: fmul_recip [simplified] algebra_simps)
  done







section \<open>Properties of the rounding\<close>

text \<open>
  \<open>ilog2\<close> is the exponent of the leading bit, a rounded value is within half a
  spacing of the value, and an integer below \<open>2\<^sup>5\<^sup>3\<close> is its own rounding.
\<close>

lemma bitlen_pos: "0 < n \<Longrightarrow> 1 \<le> bitlen n"
  using bitlen_nonneg [of n] bitlen_eq_zero_iff [of n] by linarith

lemma ilog2_bounds:
  assumes "x \<noteq> 0"
  shows "2 powi ilog2 x \<le> \<bar>x\<bar> \<and> \<bar>x\<bar> < 2 powi (ilog2 x + 1)"
proof (cases "1 \<le> \<bar>x\<bar>")
  case True
  define n where "n = \<lfloor>\<bar>x\<bar>\<rfloor>"
  have n: "0 < n" using True by (simp add: n_def)
  have b: "1 \<le> bitlen n" using n by (rule bitlen_pos)
  have bb: "2 ^ nat (bitlen n - 1) \<le> n" "n < 2 ^ nat (bitlen n)"
    using bitlen_bounds [OF n] by simp_all
  have e: "ilog2 x = bitlen n - 1" using True by (simp add: ilog2_def n_def)
  have "(2::real) powi (bitlen n - 1) = 2 ^ nat (bitlen n - 1)"
    using b by (simp add: power_int_nonneg_exp)
  also have "\<dots> = of_int (2 ^ nat (bitlen n - 1))" by simp
  also have "\<dots> \<le> of_int n" using bb(1) by (simp only: of_int_le_iff)
  also have "\<dots> \<le> \<bar>x\<bar>" by (simp add: n_def)
  finally have lo: "2 powi (bitlen n - 1) \<le> \<bar>x\<bar>" .
  have "\<bar>x\<bar> < of_int (n + 1)" by (simp add: n_def)
  also have "\<dots> \<le> of_int (2 ^ nat (bitlen n))"
  proof -
    have "n + 1 \<le> 2 ^ nat (bitlen n)" using bb(2) by simp
    then show ?thesis by (simp only: of_int_le_iff)
  qed
  also have "\<dots> = (2::real) powi (bitlen n)"
    using b by (simp add: power_int_nonneg_exp)
  finally have hi: "\<bar>x\<bar> < 2 powi (bitlen n)" .
  show ?thesis using lo hi e by simp
next
  case False
  define y where "y = 1 / \<bar>x\<bar>"
  define m where "m = \<lceil>y\<rceil>"
  define k where "k = bitlen (m - 1)"
  have x: "0 < \<bar>x\<bar>" "\<bar>x\<bar> < 1" using assms False by simp_all
  have y: "1 < y" using x by (simp add: y_def)
  have m: "1 < m" using y by (simp add: m_def less_ceiling_iff)
  have m1: "0 < m - 1" using m by simp
  have k: "1 \<le> k" unfolding k_def using m1 by (rule bitlen_pos)
  have bb: "2 ^ nat (k - 1) \<le> m - 1" "m - 1 < 2 ^ nat k"
    using bitlen_bounds [OF m1] by (simp_all add: k_def)
  have e: "ilog2 x = - k" using False by (simp add: ilog2_def k_def m_def y_def)
  have "y \<le> of_int m" by (simp add: m_def)
  also have "\<dots> \<le> of_int (2 ^ nat k)"
  proof -
    have "m \<le> 2 ^ nat k" using bb(2) by simp
    then show ?thesis by (simp only: of_int_le_iff)
  qed
  also have "\<dots> = (2::real) ^ nat k" by simp
  finally have "1 / \<bar>x\<bar> \<le> 2 ^ nat k" by (simp add: y_def)
  then have "1 / 2 ^ nat k \<le> \<bar>x\<bar>"
    using x(1) by (simp add: field_simps)
  moreover have "(2::real) powi (- k) = 1 / 2 ^ nat k"
    using k by (simp add: power_int_minus_divide power_int_nonneg_exp)
  ultimately have lo: "2 powi (- k) \<le> \<bar>x\<bar>" by simp
  have "(2::real) ^ nat (k - 1) = of_int (2 ^ nat (k - 1))" by simp
  also have "\<dots> \<le> of_int (m - 1)" using bb(1) by (simp only: of_int_le_iff)
  also have "\<dots> < y" unfolding m_def using ceiling_correct [of y] by simp
  finally have "2 ^ nat (k - 1) < 1 / \<bar>x\<bar>" by (simp add: y_def)
  then have "\<bar>x\<bar> < 1 / 2 ^ nat (k - 1)"
    using x(1) by (simp add: field_simps)
  moreover have "(2::real) powi (- k + 1) = 1 / 2 ^ nat (k - 1)"
  proof -
    have "- k + 1 = - (k - 1)" by simp
    then show ?thesis
      using k by (simp only: power_int_minus_divide) (simp add: power_int_nonneg_exp)
  qed
  ultimately have hi: "\<bar>x\<bar> < 2 powi (- k + 1)" by simp
  show ?thesis using lo hi e by simp
qed

lemma round_half_even_error: "\<bar>of_int (round_half_even z) - z\<bar> \<le> 1 / 2"
proof -
  have "of_int \<lfloor>z\<rfloor> \<le> z" "z < of_int \<lfloor>z\<rfloor> + 1" by linarith+
  then show ?thesis
    by (auto simp: round_half_even_def Let_def)
qed

lemma ulp_pos: "0 < ulp x"
  by (simp add: ulp_def)

lemma round_double_error: "\<bar>round_double x - x\<bar> \<le> ulp x / 2"
proof (cases "x = 0")
  case True
  then show ?thesis using ulp_pos [of x] by (simp add: round_double_def)
next
  case False
  have "round_double x - x = (of_int (round_half_even (x / ulp x)) - x / ulp x) * ulp x"
    using False ulp_pos [of x] by (simp add: round_double_def field_simps)
  then have "\<bar>round_double x - x\<bar> = \<bar>of_int (round_half_even (x / ulp x)) - x / ulp x\<bar> * ulp x"
    using ulp_pos [of x] by (simp add: abs_mult)
  also have "\<dots> \<le> 1 / 2 * ulp x"
    using round_half_even_error [of "x / ulp x"] ulp_pos [of x]
    by (intro mult_right_mono) simp_all
  finally show ?thesis by simp
qed

text \<open>
  A float operation gives the rounded value where this is finite, and \<open>+inf\<close> where it
  reaches \<open>2\<^sup>1\<^sup>0\<^sup>2\<^sup>4\<close>; and the rounding of a value that is at least a power of two, a
  binary64 value, is at least that power.
\<close>

lemma fround_Fin:
  "- (2 ^ 1024) < round_double a \<Longrightarrow> round_double a < 2 ^ 1024
    \<Longrightarrow> fround (Fin a) = Fin (round_double a)"
  "2 ^ 1024 \<le> round_double a \<Longrightarrow> fround (Fin a) = PInf"
  by (simp_all add: fround_def)

lemma round_half_even_ge: "of_int n \<le> x \<Longrightarrow> n \<le> round_half_even x"
proof -
  assume "of_int n \<le> x"
  then have "n \<le> \<lfloor>x\<rfloor>" by (simp add: le_floor_iff)
  then show ?thesis by (auto simp: round_half_even_def Let_def)
qed

lemma round_double_ge_powi:
  assumes "2 powi k \<le> x" and "- 1022 \<le> k"
  shows "2 powi k \<le> round_double x"
proof -
  have "(0::real) < 2 powi k" by simp
  then have x: "0 < x" using assms(1) by linarith
  define e where "e = ilog2 x"
  have b: "2 powi e \<le> x" "x < 2 powi (e + 1)"
    using ilog2_bounds [of x] x by (simp_all add: e_def)
  have "(2::real) powi k < 2 powi (e + 1)" using assms(1) b(2) by linarith
  moreover have "e + 1 \<le> k \<Longrightarrow> (2::real) powi (e + 1) \<le> 2 powi k"
    by (rule power_int_increasing) simp_all
  ultimately have ke: "k \<le> e" by linarith
  have "max (ilog2 x) (- 1022) = e"
    using ke assms(2) by (simp add: e_def)
  then have u: "ulp x = 2 powi (e - 52)"
    by (simp only: ulp_def)
  have p: "(2::real) powi e = 2 ^ 52 * 2 powi (e - 52)"
    by (simp add: power_int_diff)
  have "of_int (2 ^ 52) * ulp x \<le> x"
    using b(1) p u by simp
  then have "of_int (2 ^ 52) \<le> x / ulp x"
    using ulp_pos [of x] by (simp add: pos_le_divide_eq)
  then have "2 ^ 52 \<le> round_half_even (x / ulp x)"
    by (rule round_half_even_ge)
  then have "(2::real) ^ 52 \<le> of_int (round_half_even (x / ulp x))"
    by (metis of_int_le_iff of_int_numeral of_int_power)
  then have "2 ^ 52 * ulp x \<le> of_int (round_half_even (x / ulp x)) * ulp x"
    using ulp_pos [of x] by (simp only: mult_le_cancel_right_pos)
  then have "2 powi e \<le> round_double x"
    using x p u by (simp add: round_double_def)
  moreover have "(2::real) powi k \<le> 2 powi e"
    using ke by (simp add: power_int_increasing)
  ultimately show ?thesis by linarith
qed

lemma round_half_even_nonneg: "0 \<le> x \<Longrightarrow> 0 \<le> round_half_even x"
  by (simp add: round_half_even_def Let_def)

lemma round_double_nonneg: "0 \<le> x \<Longrightarrow> 0 \<le> round_double x"
  using ulp_pos [of x] by (simp add: round_double_def round_half_even_nonneg)

lemma round_double_examples:
  "round_double (1 / 10) = 3602879701896397 / 36028797018963968"
  "round_double (36028797018963968 / 3602879701896397) = 10"
  "round_double 10 = 10"
  "round_double 6000 = 6000"
  by code_simp+

text \<open>
  The quotient of 1 and of the float nearest to 0.1 is below 10 and rounds to 10: the
  number of steps follows the rounded quotient.
\<close>

lemma exact_quotient_example: "\<lfloor>1 / round_double (1 / 10)\<rfloor> = 9"
  by (simp add: round_double_examples)

lemma round_half_even_of_int [simp]: "round_half_even (of_int k) = k"
  by (simp add: round_half_even_def)

lemma ilog2_less:
  assumes "x \<noteq> 0" and "\<bar>x\<bar> < 2 powi k"
  shows "ilog2 x < k"
proof (rule ccontr)
  assume "\<not> ilog2 x < k"
  then have "k \<le> ilog2 x" by simp
  then have "(2::real) powi k \<le> 2 powi ilog2 x"
    by (intro power_int_increasing) simp_all
  also have "\<dots> \<le> \<bar>x\<bar>" using ilog2_bounds [OF assms(1)] by simp
  finally show False using assms(2) by simp
qed

lemma round_double_error_below:
  assumes "\<bar>x\<bar> < 2 powi k" and "- 1021 \<le> k"
  shows "\<bar>round_double x - x\<bar> \<le> 2 powi (k - 54)"
proof (cases "x = 0")
  case True
  then show ?thesis by (simp add: round_double_def)
next
  case False
  have "max (ilog2 x) (- 1022) - 52 \<le> k - 53"
    using ilog2_less [OF False assms(1)] assms(2) by simp
  then have "ulp x \<le> 2 powi (k - 53)"
    unfolding ulp_def by (intro power_int_increasing) simp_all
  moreover have "(2::real) powi (k - 53) / 2 = 2 powi (k - 54)"
  proof -
    have "(2::real) powi (k - 54 + 1) = 2 powi (k - 54) * 2"
      by (rule power_int_add_1) simp
    moreover have "k - 54 + 1 = k - 53" by simp
    ultimately show ?thesis by simp
  qed
  ultimately show ?thesis
    using round_double_error [of x] by linarith
qed

lemma round_double_of_int:
  assumes "\<bar>n\<bar> < 2 ^ 53"
  shows "round_double (of_int n) = of_int n"
proof (cases "n = 0")
  case True
  then show ?thesis by (simp add: round_double_def)
next
  case False
  define e where "e = ilog2 (of_int n)"
  have nz: "(of_int n :: real) \<noteq> 0" using False by simp
  have "\<bar>of_int n :: real\<bar> < 2 powi 53"
  proof -
    have "\<bar>of_int n :: real\<bar> = of_int \<bar>n\<bar>" by simp
    also have "\<dots> < of_int (2 ^ 53)" using assms by (simp only: of_int_less_iff)
    finally show ?thesis by simp
  qed
  then have hi: "e < 53" unfolding e_def using nz by (intro ilog2_less) simp_all
  have lo: "0 \<le> e"
  proof (rule ccontr)
    assume "\<not> 0 \<le> e"
    then have "e + 1 \<le> 0" by simp
    then have "(2::real) powi (e + 1) \<le> 2 powi 0"
      by (intro power_int_increasing) simp_all
    moreover have "\<bar>of_int n :: real\<bar> < 2 powi (e + 1)"
      using ilog2_bounds [OF nz] by (simp add: e_def)
    moreover have "1 \<le> \<bar>of_int n :: real\<bar>"
    proof -
      have "1 \<le> \<bar>n\<bar>" using False by simp
      then have "(of_int 1 :: real) \<le> of_int \<bar>n\<bar>" by (simp only: of_int_le_iff)
      then show ?thesis by simp
    qed
    ultimately show False by simp
  qed
  define j where "j = nat (52 - e)"
  have u: "(2::real) powi (max e (- 1022) - 52) = 1 / 2 ^ j"
  proof -
    have "max e (- 1022) - 52 = - int j" using lo hi by (simp add: j_def)
    then show ?thesis by (simp add: power_int_minus_divide)
  qed
  have q: "of_int n / (1 / 2 ^ j) = (of_int (n * 2 ^ j) :: real)" by simp
  have "round_double (of_int n) = of_int (round_half_even (of_int n / (1 / 2 ^ j))) * (1 / 2 ^ j)"
    using nz u by (simp add: round_double_def ulp_def e_def)
  also have "\<dots> = of_int (n * 2 ^ j) * (1 / 2 ^ j)"
    by (simp only: q round_half_even_of_int)
  also have "\<dots> = of_int n" by simp
  finally show ?thesis .
qed

lemma tenth_error: "round_double (1 / 10) - 1 / 10 = 1 / 10 / 2 ^ 54"
  by (simp add: round_double_examples)

lemma decode_error:
  assumes "0 \<le> n" and "n < 2 ^ 24"
  shows "\<bar>round_double (- 10000 + round_double (round_double (of_int n) * round_double (1 / 10)))
          - (- 10000 + of_int n / 10)\<bar> \<le> 1 / 2 ^ 31"
proof -
  define c :: real where "c = round_double (1 / 10)"
  define x :: real where "x = of_int n"
  define p where "p = round_double (x * c)"
  have x: "0 \<le> x" "x < 2 ^ 24"
  proof -
    show "0 \<le> x" using assms(1) by (simp add: x_def)
    have "of_int n < (of_int (2 ^ 24) :: real)" using assms(2) by (simp only: of_int_less_iff)
    then show "x < 2 ^ 24" by (simp add: x_def)
  qed
  have fx: "round_double (of_int n) = x"
    unfolding x_def using assms by (intro round_double_of_int) simp
  have c: "c = 1 / 10 + 1 / 10 / 2 ^ 54"
    using tenth_error by (simp add: c_def)
  have xc: "0 \<le> x * c" "x * c < 2 ^ 21" "\<bar>x * c - x / 10\<bar> \<le> 1 / 2 ^ 33"
    using x by (simp_all add: c field_simps)
  have "\<bar>x * c\<bar> < 2 powi 21" using xc by simp
  then have "\<bar>p - x * c\<bar> \<le> 2 powi (21 - 54)"
    unfolding p_def by (intro round_double_error_below) simp_all
  then have pe: "\<bar>p - x * c\<bar> \<le> 1 / 2 ^ 33"
    by (simp add: power_int_minus_divide)
  have "\<bar>p - x / 10\<bar> \<le> \<bar>p - x * c\<bar> + \<bar>x * c - x / 10\<bar>" by linarith
  also have "\<dots> \<le> 1 / 2 ^ 33 + 1 / 2 ^ 33" using pe xc(3) by (rule add_mono)
  finally have px: "\<bar>p - x / 10\<bar> \<le> 1 / 2 ^ 32" by simp
  have "\<bar>p - x / 10\<bar> \<le> 1" using px by simp
  then have "\<bar>- 10000 + p\<bar> < 2 powi 21"
    using x by simp
  then have "\<bar>round_double (- 10000 + p) - (- 10000 + p)\<bar> \<le> 2 powi (21 - 54)"
    by (intro round_double_error_below) simp_all
  then have re: "\<bar>round_double (- 10000 + p) - (- 10000 + p)\<bar> \<le> 1 / 2 ^ 33"
    by (simp add: power_int_minus_divide)
  have "\<bar>round_double (- 10000 + p) - (- 10000 + x / 10)\<bar>
      \<le> \<bar>round_double (- 10000 + p) - (- 10000 + p)\<bar> + \<bar>p - x / 10\<bar>" by linarith
  also have "\<dots> \<le> 1 / 2 ^ 33 + 1 / 2 ^ 32" using re px by (rule add_mono)
  also have "\<dots> \<le> 1 / 2 ^ 31" by simp
  finally have "\<bar>round_double (- 10000 + p) - (- 10000 + x / 10)\<bar> \<le> 1 / 2 ^ 31" .
  then show ?thesis
    by (simp only: fx p_def c_def x_def)
qed

section \<open>Properties of the predictor\<close>

lemma calculate_derivatives_length:
  "length s = 9 \<Longrightarrow> \<exists>d. calculate_derivatives eq s t = Inr d \<and> length d = 9"
  by (simp add: calculate_derivatives_def Let_def)

lemma rk4_step_length:
  assumes "length s = 9"
  shows "\<exists>s'. rk4_step (calculate_derivatives eq) s dt t = Inr s' \<and> length s' = 9"
proof -
  have step: "\<And>s t. length s = 9 \<Longrightarrow> \<exists>d. calculate_derivatives eq s t = Inr d \<and> length d = 9"
    by (rule calculate_derivatives_length)
  obtain k1 where k1: "calculate_derivatives eq s t = Inr k1" "length k1 = 9"
    using step [OF assms] by blast
  let ?s2 = "vadd s (np_scale (fdiv dt (Fin 2)) k1)"
  have "length ?s2 = 9" using assms k1 by simp
  then obtain k2 where k2: "calculate_derivatives eq ?s2 (fadd t (fdiv dt (Fin 2))) = Inr k2"
    "length k2 = 9"
    using step by blast
  let ?s3 = "vadd s (np_scale (fdiv dt (Fin 2)) k2)"
  have "length ?s3 = 9" using assms k2 by simp
  then obtain k3 where k3: "calculate_derivatives eq ?s3 (fadd t (fdiv dt (Fin 2))) = Inr k3"
    "length k3 = 9"
    using step by blast
  let ?s4 = "vadd s (np_scale dt k3)"
  have "length ?s4 = 9" using assms k3 by simp
  then obtain k4 where k4: "calculate_derivatives eq ?s4 (fadd t dt) = Inr k4" "length k4 = 9"
    using step by blast
  show ?thesis
    using assms k1 k2 k3 k4 by (simp add: rk4_step_def np_add_same)
qed

lemma predict_loop_total:
  assumes "length state = 9"
  shows "\<exists>traj'. predict_loop eq n traj state dt t = Inr traj'
    \<and> length traj' = length traj + n \<and> take (length traj) traj' = traj"
  using assms
proof (induction n arbitrary: traj state t)
  case 0
  then show ?case by simp
next
  case (Suc n)
  obtain s' where s': "rk4_step (calculate_derivatives eq) state dt t = Inr s'" "length s' = 9"
    using rk4_step_length [OF Suc.prems] by blast
  obtain traj' where t': "predict_loop eq n (traj @ [s']) s' dt (fadd t dt) = Inr traj'"
    "length traj' = length (traj @ [s']) + n" "take (length (traj @ [s'])) traj' = traj @ [s']"
    using Suc.IH [OF s'(2)] by blast
  have "take (length traj) traj' = take (length traj) (take (length (traj @ [s'])) traj')"
    by (simp add: min_def)
  also have "\<dots> = traj" using t'(3) by simp
  finally show ?case using s' t' by simp
qed

lemma predict_trajectory_steps:
  assumes "0 < dt" and "0 < T" and "round_double (T / dt) < 2 ^ 1024"
  shows "predict_trajectory self s0 (Fin dt) (Fin T) =
    predict_loop (equations self) (nat \<lfloor>round_double (T / dt)\<rfloor>) [s0] s0 (Fin dt) (Fin 0)"
proof -
  have "0 \<le> round_double (T / dt)"
    using assms by (simp add: round_double_nonneg)
  then have "- (2 ^ 1024) < round_double (T / dt)"
    by (rule less_le_trans [rotated]) simp
  then have "fround (Fin (T / dt)) = Fin (round_double (T / dt))"
    using assms(3) by (rule fround_Fin)
  then show ?thesis
    using assms(1) \<open>0 \<le> round_double (T / dt)\<close>
    by (simp add: predict_trajectory_def py_truediv_def)
qed

lemma predict_trajectory_overflows:
  assumes "0 < dt" and "2 ^ 1024 \<le> round_double (T / dt)"
  shows "predict_trajectory self s0 (Fin dt) (Fin T) = Inl OverflowError"
proof -
  have "fround (Fin (T / dt)) = PInf"
    using assms(2) by (rule fround_Fin)
  then show ?thesis
    using assms(1) by (simp add: predict_trajectory_def py_truediv_def)
qed

lemma round_double_overflow_example: "2 ^ 1024 \<le> round_double (2 ^ 1023 / (1 / 2))"
proof -
  have "(2::real) powi 1024 \<le> 2 ^ 1023 / (1 / 2)" by simp
  then have "(2::real) powi 1024 \<le> round_double (2 ^ 1023 / (1 / 2))"
    by (rule round_double_ge_powi) simp
  then show ?thesis by simp
qed

text \<open>
  Not every \<open>dt > 0\<close> and \<open>T > 0\<close> give a list of points, as the specification has it:
  at \<open>dt = 0.5\<close> and \<open>T = 2\<^sup>1\<^sup>0\<^sup>2\<^sup>3\<close>, both finite floats above zero, the quotient \<open>T / dt\<close>
  overflows to an infinity, which \<^verbatim>\<open>int\<close> refuses: \<^verbatim>\<open>predict_trajectory\<close> raises
  \<^verbatim>\<open>OverflowError\<close> and returns no list.
\<close>

theorem predict_trajectory_overflow_example:
  "length example_state = 9 \<and> (0 :: real) < 1 / 2 \<and> (0 :: real) < 2 ^ 1023 \<and>
   predict_trajectory TrajectoryPredictor_init example_state (Fin (1 / 2)) (Fin (2 ^ 1023))
     = Inl OverflowError"
proof -
  have "predict_trajectory TrajectoryPredictor_init example_state (Fin (1 / 2)) (Fin (2 ^ 1023))
     = Inl OverflowError"
    by (rule predict_trajectory_overflows [OF _ round_double_overflow_example]) simp
  moreover have "length example_state = 9" "(0 :: real) < 1 / 2" "(0 :: real) < 2 ^ 1023"
    by (simp_all add: example_state_def)
  ultimately show ?thesis
    by (simp only: simp_thms)
qed

text \<open>
  C2, with the bound it needs. For every initial state of nine components and all finite \<open>dt > 0\<close> and
  \<open>T > 0\<close>: where the quotient \<open>T / dt\<close> as the program computes it, rounded to binary64,
  is finite, that is below \<open>2\<^sup>1\<^sup>0\<^sup>2\<^sup>4\<close>, \<^verbatim>\<open>predict_trajectory\<close> returns, and returns
  \<open>\<lfloor>T / dt\<rfloor> + 1\<close> points, the first of which is the initial state; where the quotient
  overflows, it raises \<^verbatim>\<open>OverflowError\<close>. (The components of the state may be any floats.)
\<close>

theorem predict_trajectory_length:
  assumes "length s0 = 9" and "0 < dt" and "0 < T"
  shows "(round_double (T / dt) < 2 ^ 1024 \<longrightarrow>
      (\<exists>traj. predict_trajectory self s0 (Fin dt) (Fin T) = Inr traj
        \<and> length traj = nat \<lfloor>round_double (T / dt)\<rfloor> + 1 \<and> traj ! 0 = s0)) \<and>
    (2 ^ 1024 \<le> round_double (T / dt) \<longrightarrow>
      predict_trajectory self s0 (Fin dt) (Fin T) = Inl OverflowError)"
proof (intro conjI impI)
  assume fin: "round_double (T / dt) < 2 ^ 1024"
  obtain traj where t:
    "predict_loop (equations self) (nat \<lfloor>round_double (T / dt)\<rfloor>) [s0] s0 (Fin dt) (Fin 0)
       = Inr traj"
    "length traj = length [s0] + nat \<lfloor>round_double (T / dt)\<rfloor>" "take (length [s0]) traj = [s0]"
    using predict_loop_total [OF assms(1)] by blast
  from t(3) have "traj ! 0 = s0"
    by (metis length_Cons list.size(3) nth_Cons_0 nth_take zero_less_one One_nat_def)
  then show "\<exists>traj. predict_trajectory self s0 (Fin dt) (Fin T) = Inr traj
        \<and> length traj = nat \<lfloor>round_double (T / dt)\<rfloor> + 1 \<and> traj ! 0 = s0"
    using t predict_trajectory_steps [OF assms(2,3) fin] by simp
next
  assume "2 ^ 1024 \<le> round_double (T / dt)"
  with assms(2) show "predict_trajectory self s0 (Fin dt) (Fin T) = Inl OverflowError"
    by (rule predict_trajectory_overflows)
qed

text \<open>
  The witness: the scenario of the specification, eleven points for a horizon of 1 at the
  step 0.1, the float nearest to it; and the overflow at the step 0.5 for the horizon
  \<open>2\<^sup>1\<^sup>0\<^sup>2\<^sup>3\<close>.
\<close>

theorem predict_trajectory_length_witness:
  "(\<exists>traj. predict_trajectory TrajectoryPredictor_init
       [Fin 0, Fin 0, Fin 1000, Fin 50, Fin 0, Fin 0, Fin 0, Fin 0, Fin 0]
       (Fin (round_double (1 / 10))) (Fin 1)
     = Inr traj
   \<and> length traj = 11
   \<and> traj ! 0 = [Fin 0, Fin 0, Fin 1000, Fin 50, Fin 0, Fin 0, Fin 0, Fin 0, Fin 0]) \<and>
   predict_trajectory TrajectoryPredictor_init
       [Fin 0, Fin 0, Fin 1000, Fin 50, Fin 0, Fin 0, Fin 0, Fin 0, Fin 0]
       (Fin (1 / 2)) (Fin (2 ^ 1023))
     = Inl OverflowError"
proof -
  have "\<exists>traj. predict_trajectory TrajectoryPredictor_init
       [Fin 0, Fin 0, Fin 1000, Fin 50, Fin 0, Fin 0, Fin 0, Fin 0, Fin 0]
       (Fin (round_double (1 / 10))) (Fin 1)
     = Inr traj
   \<and> length traj = 11
   \<and> traj ! 0 = [Fin 0, Fin 0, Fin 1000, Fin 50, Fin 0, Fin 0, Fin 0, Fin 0, Fin 0]"
    using predict_trajectory_length [of
        "[Fin 0, Fin 0, Fin 1000, Fin 50, Fin 0, Fin 0, Fin 0, Fin 0, Fin 0]"
        "round_double (1 / 10)" 1 TrajectoryPredictor_init]
    by (simp add: round_double_examples)
  moreover have "predict_trajectory TrajectoryPredictor_init
       [Fin 0, Fin 0, Fin 1000, Fin 50, Fin 0, Fin 0, Fin 0, Fin 0, Fin 0]
       (Fin (1 / 2)) (Fin (2 ^ 1023))
     = Inl OverflowError"
  proof -
    have "2 ^ 1024 \<le> round_double (2 ^ 1023 / (1 / 2)) \<longrightarrow>
      predict_trajectory TrajectoryPredictor_init
       [Fin 0, Fin 0, Fin 1000, Fin 50, Fin 0, Fin 0, Fin 0, Fin 0, Fin 0]
       (Fin (1 / 2)) (Fin (2 ^ 1023))
     = Inl OverflowError"
      by (rule conjunct2, rule predict_trajectory_length) simp_all
    then show ?thesis
      using round_double_overflow_example by (rule mp)
  qed
  ultimately show ?thesis by (rule conjI)
qed

section \<open>Properties of the terrain checker\<close>






lemma has_tile_examples:
  "has_tile ''tile_data''" "\<not> has_tile ''name''" "\<not> has_tile ''value''"
  by code_simp+

lemma example_tile_data:
  "get_tile_data example_cursor x y 14 =
     (Some (SqlBlob []),
      [ListTables, TableInfo ''metadata'', TableInfo ''tiles'',
       SelectTile ''tiles'' 14 x (16383 - y), TableInfo ''tiles''])"
  by (simp add: get_tile_data_def example_cursor_def has_tile_examples py_of_sql_def
      run_list_tables_def run_select_tile_def run_table_info_def)

lemma pixel_roundings:
  "round_double 30 = 30" "round_double 90 = 90"
  "round_double (- 30) = - 30" "round_double (- 90) = - 90"
  "round_double (1 / 3) = 6004799503160661 / 18014398509481984"
  "round_double (6004799503160661 / 70368744177664) = 6004799503160661 / 70368744177664"
  by code_simp+

lemma example_pixel:
  "py_int (pixel_index (Fin 30) (Fin 0) (Fin 90) 256) = Inr 85"
  "py_int (pixel_index (Fin 60) (Fin 90) (Fin 0) 256) = Inr 85"
proof -
  have r: "fround (Fin 30) = Fin 30" "fround (Fin 90) = Fin 90"
    "fround (Fin (- 30)) = Fin (- 30)" "fround (Fin (- 90)) = Fin (- 90)"
    "fround (Fin (1 / 3)) = Fin (6004799503160661 / 18014398509481984)"
    "fround (Fin (6004799503160661 / 70368744177664)) = Fin (6004799503160661 / 70368744177664)"
    by (simp_all add: fround_Fin pixel_roundings)
  show "py_int (pixel_index (Fin 30) (Fin 0) (Fin 90) 256) = Inr 85"
    "py_int (pixel_index (Fin 60) (Fin 90) (Fin 0) 256) = Inr 85"
    by (simp_all add: pixel_index_def fsub_def r)
qed

lemma example_elevation:
  "get_elevation_log (example_libs [R, G, B]) example_checker (Fin 60) (Fin 30) =
     (Some (decode_elevation R G B),
      [ListTables, TableInfo ''metadata'', TableInfo ''tiles'',
       SelectTile ''tiles'' 14 9000 11383, TableInfo ''tiles''])"
  by (simp add: get_elevation_log_def get_tile_coords_def example_libs_def example_checker_def
      example_tile_data read_elevation_def example_image_def example_pixel)

lemma decode_sample_real:
  "round_double (- 10000 + round_double (round_double (of_int (10 * 256 * 256 + 20 * 256 + 30))
     * round_double (1 / 10))) = 56051"
  by code_simp

lemma decode_sample: "decode_elevation 10 20 30 = Fin 56051"
  unfolding decode_elevation_def by (simp only: decode_sample_real)

text \<open>
  C1. Where the tile, the image and the pixel are there and the pixel has the bands
  \<open>(R, G, B)\<close>, each from 0 to 255, \<^verbatim>\<open>get_elevation\<close> returns the binary64 value of
  \<open>-10000 + (R 65536 + G 256 + B) 0.1\<close>: the product of the integer and of the float
  nearest to 0.1, rounded, added to -10000 and rounded. This float is within
  \<open>2\<^sup>-\<^sup>3\<^sup>1\<close> of the real number \<open>-10000 + (R 65536 + G 256 + B) / 10\<close>, and for
  \<open>(10, 20, 30)\<close> it is 56051 exactly.
\<close>

theorem get_elevation_decodes:
  assumes "mercantile_tile libs lon lat 14 = Inr (x, y)"
    and "fst (get_tile_data (cursor self) x y 14) = Some tile_data"
    and "Image_open libs tile_data = Inr img"
    and "mercantile_bounds libs x y 14 = Inr bbox"
    and "py_int (pixel_index lon (west bbox) (east bbox) (width img)) = Inr px"
    and "py_int (pixel_index lat (north bbox) (south bbox) (height img)) = Inr py"
    and "getpixel img px py = Inr [R, G, B]"
    and "0 \<le> R \<and> R \<le> 255" and "0 \<le> G \<and> G \<le> 255" and "0 \<le> B \<and> B \<le> 255"
  shows "get_elevation libs self lat lon = Some (decode_elevation R G B) \<and>
    decode_elevation R G B =
      Fin (round_double (- 10000 +
        round_double (round_double (of_int (R * 65536 + G * 256 + B)) * round_double (1 / 10)))) \<and>
    \<bar>round_double (- 10000 +
        round_double (round_double (of_int (R * 65536 + G * 256 + B)) * round_double (1 / 10)))
      - (- 10000 + of_int (R * 65536 + G * 256 + B) / 10)\<bar> \<le> 1 / 2 ^ 31 \<and>
    decode_elevation 10 20 30 = Fin 56051"
proof -
  have "read_elevation libs tile_data x y 14 lat lon = Inr (decode_elevation R G B)"
    using assms(3-7) by (simp add: read_elevation_def)
  moreover obtain sent where "get_tile_data (cursor self) x y 14 = (Some tile_data, sent)"
    using assms(2) by (cases "get_tile_data (cursor self) x y 14") simp
  ultimately have "get_elevation libs self lat lon = Some (decode_elevation R G B)"
    using assms(1)
    by (simp add: get_elevation_def get_elevation_log_def get_tile_coords_def)
  moreover have n: "R * 256 * 256 + G * 256 + B = R * 65536 + G * 256 + B" by simp
  have "decode_elevation R G B =
      Fin (round_double (- 10000 +
        round_double (round_double (of_int (R * 65536 + G * 256 + B)) * round_double (1 / 10))))"
    unfolding decode_elevation_def by (simp only: n)
  moreover have "0 \<le> R * 65536 + G * 256 + B" "R * 65536 + G * 256 + B < 2 ^ 24"
    using assms(8-10) by simp_all
  then have "\<bar>round_double (- 10000 +
        round_double (round_double (of_int (R * 65536 + G * 256 + B)) * round_double (1 / 10)))
      - (- 10000 + of_int (R * 65536 + G * 256 + B) / 10)\<bar> \<le> 1 / 2 ^ 31"
    by (rule decode_error)
  ultimately show ?thesis
    using decode_sample by blast
qed

text \<open>The witness: the example store and an image whose pixels are \<open>(10, 20, 30)\<close>.\<close>

theorem get_elevation_decodes_witness:
  "get_elevation (example_libs [10, 20, 30]) example_checker (Fin 60) (Fin 30) = Some (Fin 56051)"
proof -
  have "get_elevation (example_libs [10, 20, 30]) example_checker (Fin 60) (Fin 30)
      = Some (decode_elevation 10 20 30) \<and>
    decode_elevation 10 20 30 =
      Fin (round_double (- 10000 +
        round_double (round_double (of_int (10 * 65536 + 20 * 256 + 30)) * round_double (1 / 10)))) \<and>
    \<bar>round_double (- 10000 +
        round_double (round_double (of_int (10 * 65536 + 20 * 256 + 30)) * round_double (1 / 10)))
      - (- 10000 + of_int (10 * 65536 + 20 * 256 + 30) / 10)\<bar> \<le> 1 / 2 ^ 31 \<and>
    decode_elevation 10 20 30 = Fin 56051"
    by (rule get_elevation_decodes [where x = 9000 and y = 5000 and tile_data = "SqlBlob []"
          and img = "example_image [10, 20, 30]"
          and bbox = "\<lparr>west = Fin 0, south = Fin 0, east = Fin 90, north = Fin 90\<rparr>"
          and px = 85 and py = 85])
      (simp_all add: example_libs_def example_checker_def example_tile_data example_image_def
        example_pixel)
  then have "get_elevation (example_libs [10, 20, 30]) example_checker (Fin 60) (Fin 30)
      = Some (decode_elevation 10 20 30)" and "decode_elevation 10 20 30 = Fin 56051"
    by blast+
  then show ?thesis by (simp only:)
qed

text \<open>
  C4. For a trajectory point (at least its three coordinates) whose latitude and
  longitude in degrees lie outside the coverage box, and for a point inside it whose
  elevation lookup gives \<^verbatim>\<open>None\<close>, \<^verbatim>\<open>check_collision\<close> raises nothing and returns
  \<open>(False, +inf)\<close>, whatever the altitude, which may be any float.
\<close>

theorem check_collision_no_data:
  assumes "3 \<le> length p"
    and "\<not> in_coverage (np_degrees (p ! 0)) (np_degrees (p ! 1))
       \<or> get_elevation libs self (np_degrees (p ! 0)) (np_degrees (p ! 1)) = None"
  shows "check_collision libs self p = Inr (False, PInf)"
  using assms by (auto simp: check_collision_def Let_def)

lemma degrees_radians: "np_degrees (np_radians (Fin a)) = Fin a"
  by (simp add: np_degrees_def np_radians_def)

text \<open>
  The witness: a point below sea level at 10 degrees north, outside the box, and one
  inside the box over a store without tables.
\<close>

theorem check_collision_no_data_witness:
  "check_collision (example_libs [10, 20, 30]) example_checker
     [np_radians (Fin 10), np_radians (Fin 30), Fin (- 500)] = Inr (False, PInf) \<and>
   check_collision (example_libs [10, 20, 30]) \<lparr>cursor = empty_cursor\<rparr>
     [np_radians (Fin 60), np_radians (Fin 30), Fin (- 500)] = Inr (False, PInf)"
proof -
  have a: "\<not> in_coverage (Fin 10) (Fin 30)"
    by (simp add: in_coverage_def)
  have b: "get_elevation (example_libs [10, 20, 30]) \<lparr>cursor = empty_cursor\<rparr> (Fin 60) (Fin 30) = None"
    by (simp add: get_elevation_def get_elevation_log_def get_tile_coords_def example_libs_def
        get_tile_data_def empty_cursor_def run_list_tables_def)
  show ?thesis
    using check_collision_no_data [of "[np_radians (Fin 10), np_radians (Fin 30), Fin (- 500)]"
        "example_libs [10, 20, 30]" example_checker]
      check_collision_no_data [of "[np_radians (Fin 60), np_radians (Fin 30), Fin (- 500)]"
        "example_libs [10, 20, 30]" "\<lparr>cursor = empty_cursor\<rparr>"]
      a b
    by (simp add: degrees_radians)
qed


lemma flipped_row_tile_data:
  "get_tile_data flipped_row_cursor x 5000 14 =
     (Some (SqlBlob []),
      [ListTables, TableInfo ''metadata'', TableInfo ''tiles'',
       SelectTile ''tiles'' 14 x 11383, TableInfo ''tiles''])"
  "fst (get_tile_data flipped_row_cursor x 11383 14) = None"
  by (simp_all add: get_tile_data_def flipped_row_cursor_def has_tile_examples py_of_sql_def
      run_list_tables_def run_select_tile_def run_table_info_def)


section \<open>The predictor and its argument\<close>

lemma predict_loop_h_frame:
  assumes "predict_loop_h eq n h traj state dt t = Inr (h', traj')"
  shows "next_id h \<le> next_id h'
    \<and> (\<forall>a < next_id h. cells h' a = cells h a)
    \<and> (\<exists>new. traj' = traj @ new \<and> (\<forall>r \<in> set new. next_id h \<le> r \<and> r < next_id h'))"
  using assms
proof (induction n arbitrary: h traj state t)
  case 0
  then show ?case by simp
next
  case (Suc n)
  from Suc.prems obtain v where v: "rk4_step (calculate_derivatives eq) (cells h state) dt t = Inr v"
    by (cases "rk4_step (calculate_derivatives eq) (cells h state) dt t") simp_all
  define h1 where "h1 = fst (alloc h v)"
  define s1 where "s1 = snd (alloc h v)"
  define h2 where "h2 = fst (np_copy h1 s1)"
  define c where "c = snd (np_copy h1 s1)"
  have rec: "predict_loop_h eq n h2 (traj @ [c]) s1 dt (fadd t dt) = Inr (h', traj')"
    using Suc.prems v by (simp add: h1_def s1_def h2_def c_def split: prod.splits)
  have n2: "next_id h2 = Suc (Suc (next_id h))" and c: "c = Suc (next_id h)"
    and frame: "\<forall>a < next_id h. cells h2 a = cells h a"
    by (simp_all add: h1_def s1_def h2_def c_def alloc_def np_copy_def)
  from Suc.IH [OF rec] obtain new where
    ih: "next_id h2 \<le> next_id h'" "\<forall>a < next_id h2. cells h' a = cells h2 a"
      "traj' = (traj @ [c]) @ new" "\<forall>r \<in> set new. next_id h2 \<le> r \<and> r < next_id h'"
    by blast
  have "traj' = traj @ (c # new)" using ih(3) by simp
  moreover have "\<forall>r \<in> set (c # new). next_id h \<le> r \<and> r < next_id h'"
    using ih(1,4) n2 c by auto
  moreover have "\<forall>a < next_id h. cells h' a = cells h a"
    using ih(2) frame n2 by auto
  moreover have "next_id h \<le> next_id h'" using ih(1) n2 by simp
  ultimately show ?case by blast
qed

lemma predict_loop_h_values:
  assumes "\<forall>r \<in> set traj. r < next_id h" and "state < next_id h"
  shows "map_sum id (\<lambda>(h', traj'). map (cells h') traj')
           (predict_loop_h eq n h traj state dt t)
         = predict_loop eq n (map (cells h) traj) (cells h state) dt t"
  using assms
proof (induction n arbitrary: h traj state t)
  case 0
  then show ?case by simp
next
  case (Suc n)
  show ?case
  proof (cases "rk4_step (calculate_derivatives eq) (cells h state) dt t")
    case (Inl e)
    then show ?thesis by simp
  next
    case (Inr v)
    define h1 where "h1 = fst (alloc h v)"
    define s1 where "s1 = snd (alloc h v)"
    define h2 where "h2 = fst (np_copy h1 s1)"
    define c where "c = snd (np_copy h1 s1)"
    have facts: "next_id h2 = Suc (Suc (next_id h))" "c = Suc (next_id h)" "s1 = next_id h"
      "cells h2 c = v" "cells h2 s1 = v" "\<forall>a < next_id h. cells h2 a = cells h a"
      by (simp_all add: h1_def s1_def h2_def c_def alloc_def np_copy_def)
    have pre: "\<forall>r \<in> set (traj @ [c]). r < next_id h2" "s1 < next_id h2"
      using Suc.prems facts by auto
    have m: "map (cells h2) (traj @ [c]) = map (cells h) traj @ [v]"
      using Suc.prems(1) facts by simp
    have m': "map (cells h2) traj = map (cells h) traj"
      using Suc.prems(1) facts by simp
    have step: "predict_loop_h eq (Suc n) h traj state dt t
        = predict_loop_h eq n h2 (traj @ [c]) s1 dt (fadd t dt)"
      using Inr by (simp add: h1_def s1_def h2_def c_def split: prod.splits)
    have "map_sum id (\<lambda>(h', traj'). map (cells h') traj')
           (predict_loop_h eq (Suc n) h traj state dt t)
        = predict_loop eq n (map (cells h2) (traj @ [c])) (cells h2 s1) dt (fadd t dt)"
      unfolding step by (rule Suc.IH [OF pre])
    also have "\<dots> = predict_loop eq n (map (cells h) traj @ [v]) v dt (fadd t dt)"
      by (simp only: map_append list.map m' facts(4,5))
    also have "\<dots> = predict_loop eq (Suc n) (map (cells h) traj) (cells h state) dt t"
      using Inr by simp
    finally show ?thesis .
  qed
qed

lemma predict_trajectory_h_values:
  assumes "s0 < next_id h"
  shows "map_sum id (\<lambda>(h', traj). map (cells h') traj) (predict_trajectory_h self h s0 dt T)
         = predict_trajectory self (cells h s0) dt T"
proof (cases "py_truediv T dt")
  case (Inl e)
  then show ?thesis by (simp add: predict_trajectory_h_def predict_trajectory_def)
next
  case (Inr q)
  show ?thesis
  proof (cases "py_int q")
    case (Inl e)
    with Inr show ?thesis by (simp add: predict_trajectory_h_def predict_trajectory_def)
  next
    case steps: (Inr steps)
    define h1 where "h1 = fst (np_copy h s0)"
    define c0 where "c0 = snd (np_copy h s0)"
    define h2 where "h2 = fst (np_copy h1 s0)"
    define st where "st = snd (np_copy h1 s0)"
    have facts: "next_id h2 = Suc (Suc (next_id h))" "c0 = next_id h" "st = Suc (next_id h)"
      "cells h2 c0 = cells h s0" "cells h2 st = cells h s0"
      using assms by (simp_all add: h1_def c0_def h2_def st_def alloc_def np_copy_def)
    have "predict_trajectory_h self h s0 dt T
        = predict_loop_h (equations self) (nat steps) h2 [c0] st dt (Fin 0)"
      using Inr steps
      by (simp add: predict_trajectory_h_def h1_def c0_def h2_def st_def split: prod.splits)
    moreover have "predict_trajectory self (cells h s0) dt T
        = predict_loop (equations self) (nat steps) [cells h s0] (cells h s0) dt (Fin 0)"
      using Inr steps by (simp add: predict_trajectory_def)
    ultimately show ?thesis
      using predict_loop_h_values [of "[c0]" h2 st "equations self" "nat steps" dt "Fin 0"] facts
      by simp
  qed
qed

text \<open>
  C9. \<^verbatim>\<open>predict_trajectory\<close> does not change its argument: after a call that returns, the
  array of the initial state, and every array that existed before the call, holds what it
  held; the returned points are new objects, none of them the argument; the first holds a
  copy of the initial state; and a later assignment to any returned point leaves the
  initial state as it was. The contents of the returned points are the trajectory
  computed on values.
\<close>

theorem predict_trajectory_keeps_argument:
  assumes "s0 < next_id h"
    and "predict_trajectory_h self h s0 dt T = Inr (h', traj)"
  shows "cells h' s0 = cells h s0
    \<and> (\<forall>a < next_id h. cells h' a = cells h a)
    \<and> traj \<noteq> [] \<and> cells h' (traj ! 0) = cells h s0
    \<and> (\<forall>r \<in> set traj. r \<noteq> s0 \<and> next_id h \<le> r
          \<and> (\<forall>v. ((cells h')(r := v)) s0 = cells h s0))
    \<and> predict_trajectory self (cells h s0) dt T = Inr (map (cells h') traj)"
proof -
  obtain q where q: "py_truediv T dt = Inr q"
    using assms(2) by (cases "py_truediv T dt") (simp_all add: predict_trajectory_h_def)
  obtain steps where steps: "py_int q = Inr steps"
    using assms(2) q by (cases "py_int q") (simp_all add: predict_trajectory_h_def)
  define h1 where "h1 = fst (np_copy h s0)"
  define c0 where "c0 = snd (np_copy h s0)"
  define h2 where "h2 = fst (np_copy h1 s0)"
  define st where "st = snd (np_copy h1 s0)"
  have facts: "next_id h2 = Suc (Suc (next_id h))" "c0 = next_id h" "st = Suc (next_id h)"
    "\<forall>a < next_id h. cells h2 a = cells h a"
    using assms(1) by (simp_all add: h1_def c0_def h2_def st_def alloc_def np_copy_def)
  have loop: "predict_loop_h (equations self) (nat steps) h2 [c0] st dt (Fin 0) = Inr (h', traj)"
    using assms(2) q steps
    by (simp add: predict_trajectory_h_def h1_def c0_def h2_def st_def split: prod.splits)
  from predict_loop_h_frame [OF loop] obtain new where
    fr: "next_id h2 \<le> next_id h'" "\<forall>a < next_id h2. cells h' a = cells h2 a"
      "traj = [c0] @ new" "\<forall>r \<in> set new. next_id h2 \<le> r \<and> r < next_id h'"
    by blast
  have old: "\<forall>a < next_id h. cells h' a = cells h a"
    using fr(2) facts by auto
  have fresh: "\<forall>r \<in> set traj. next_id h \<le> r"
    using fr(3,4) facts by auto
  have vals: "predict_trajectory self (cells h s0) dt T = Inr (map (cells h') traj)"
    using predict_trajectory_h_values [OF assms(1), of self dt T] assms(2) by simp
  have first: "cells h' (traj ! 0) = cells h s0"
  proof -
    obtain vs where "predict_trajectory self (cells h s0) dt T = Inr vs" "vs = map (cells h') traj"
      using vals by simp
    have "traj ! 0 = c0" using fr(3) by simp
    moreover have "cells h' c0 = cells h2 c0" using fr(2) facts by simp
    moreover have "cells h2 c0 = cells h s0"
      using assms(1) by (simp add: h1_def c0_def h2_def alloc_def np_copy_def)
    ultimately show ?thesis by simp
  qed
  show ?thesis
    using old fresh vals first fr(3) assms(1) by auto
qed

text \<open>The witness: the scenario of the specification, run on the example store.\<close>

theorem predict_trajectory_keeps_argument_witness:
  "\<exists>h' traj. predict_trajectory_h TrajectoryPredictor_init example_heap 0 (Fin 0.1) (Fin 1)
       = Inr (h', traj)
     \<and> length traj = 11
     \<and> cells h' 0 = example_state
     \<and> cells h' (traj ! 0) = example_state
     \<and> (\<forall>r \<in> set traj. r \<noteq> 0 \<and> (\<forall>v. ((cells h')(r := v)) 0 = example_state))"
proof -
  have c: "cells example_heap 0 = example_state" and n: "0 < next_id example_heap"
    by (simp_all add: example_heap_def)
  have "length example_state = 9" by (simp add: example_state_def)
  from predict_loop_total [OF this, of FlightEquations_init 10 "[example_state]" "Fin 0.1" "Fin 0"]
  obtain vs where "predict_loop FlightEquations_init 10 [example_state] example_state (Fin 0.1)
      (Fin 0) = Inr vs" "length vs = 11"
    by auto
  then have vs: "predict_trajectory TrajectoryPredictor_init example_state (Fin 0.1) (Fin 1)
      = Inr vs" "length vs = 11"
    using predict_trajectory_steps [of "0.1" 1 TrajectoryPredictor_init example_state]
    by (simp_all add: round_double_examples TrajectoryPredictor_init_def)
  have "map_sum id (\<lambda>(h', traj). map (cells h') traj)
      (predict_trajectory_h TrajectoryPredictor_init example_heap 0 (Fin 0.1) (Fin 1)) = Inr vs"
    using predict_trajectory_h_values [OF n, of TrajectoryPredictor_init "Fin 0.1" "Fin 1"] vs(1) c
    by simp
  then obtain h' traj where r:
    "predict_trajectory_h TrajectoryPredictor_init example_heap 0 (Fin 0.1) (Fin 1) = Inr (h', traj)"
    "map (cells h') traj = vs"
    by (cases "predict_trajectory_h TrajectoryPredictor_init example_heap 0 (Fin 0.1) (Fin 1)") auto
  have "length traj = 11" using r(2) vs(2) by (metis length_map)
  then show ?thesis
    using predict_trajectory_keeps_argument [OF n r(1)] r(1) c by auto
qed

section \<open>Properties of the scan\<close>

lemma radians_examples:
  "np_radians (Fin 60) = Fin (pi / 3)" "np_radians (Fin 30) = Fin (pi / 6)"
  "np_radians (Fin 0) = Fin 0"
  by (simp_all add: np_radians_def)

lemma degrees_examples:
  "np_degrees (Fin (pi / 3)) = Fin 60" "np_degrees (Fin (pi / 6)) = Fin 30"
  by (simp_all add: np_degrees_def)

lemma rest_derivative:
  assumes "6371000 + h \<noteq> 0"
  shows "calculate_derivatives FlightEquations_init
     [Fin (pi / 3), Fin (pi / 6), Fin h, Fin 0, Fin 0, Fin w, Fin 0, Fin 0, Fin 0] t
   = Inr [Fin 0, Fin 0, Fin w, Fin 0, Fin 0, Fin (- 9.81), Fin 0, Fin 0, Fin 0]"
  unfolding calculate_derivatives_finite using assms
  by (simp add: derivative_formula_def Let_def rmat_mul_def rmat_T_def rmat_vec_def rdot_def
      rot_x_def rot_y_def rot_z_def upt_rec FlightEquations_init_def cos_60)

lemma rest_step:
  "rk4_step (calculate_derivatives FlightEquations_init)
     [Fin (pi / 3), Fin (pi / 6), Fin 0, Fin 0, Fin 0, Fin 0, Fin 0, Fin 0, Fin 0]
     (Fin 0.01) (Fin 0)
   = Inr [Fin (pi / 3), Fin (pi / 6), Fin (- (981 / 2000000)), Fin 0, Fin 0,
          Fin (- (981 / 10000)), Fin 0, Fin 0, Fin 0]"
  by (simp add: rk4_step_def rest_derivative np_add_def broadcast_def np_scale_def)

text \<open>
  Every warning of the scan is for a point of the trajectory and carries a tenth of the
  point's index as its time.
\<close>

lemma scan_trajectory_times:
  assumes "scan_trajectory libs tc i ps = Inr reports"
    and "Warning lvl tm d \<in> set reports"
  shows "\<exists>k. i \<le> k \<and> k < i + length ps \<and> tm = Fin (real k * 0.1)
    \<and> check_collision libs tc (ps ! (k - i)) = Inr (flt d (Fin 0), d)"
  using assms
proof (induction ps arbitrary: i reports)
  case Nil
  then show ?case by simp
next
  case (Cons p ps)
  obtain hc dist where c: "check_collision libs tc p = Inr (hc, dist)"
    using Cons.prems(1) by (cases "check_collision libs tc p") auto
  have hc: "hc = flt dist (Fin 0)"
    using c by (auto simp: check_collision_def Let_def split: if_splits option.splits)
  define out where "out = (if 0 < get_collision_warning_level dist
     then [Warning (get_collision_warning_level dist) (fmul (Fin (of_nat i)) (Fin 0.1)) dist] else [])"
  have here: "Warning lvl tm d \<in> set out \<Longrightarrow> ?case"
  proof -
    assume "Warning lvl tm d \<in> set out"
    then have "tm = Fin (real i * 0.1)" "d = dist"
      by (auto simp: out_def split: if_splits)
    then show ?case using c hc by (intro exI [of _ i]) simp
  qed
  show ?case
  proof (cases hc)
    case True
    then have "reports = out @ [CollisionAlert]"
      using Cons.prems(1) c by (simp add: out_def Let_def)
    then show ?thesis using Cons.prems(2) here by auto
  next
    case False
    then obtain more where m: "scan_trajectory libs tc (Suc i) ps = Inr more" "reports = out @ more"
      using Cons.prems(1) c
      by (cases "scan_trajectory libs tc (Suc i) ps") (auto simp: out_def Let_def)
    show ?thesis
    proof (cases "Warning lvl tm d \<in> set out")
      case True
      then show ?thesis by (rule here)
    next
      case False
      then have "Warning lvl tm d \<in> set more" using Cons.prems(2) m(2) by simp
      from Cons.IH [OF m(1) this] obtain k where
        k: "Suc i \<le> k" "k < Suc i + length ps" "tm = Fin (real k * 0.1)"
          "check_collision libs tc (ps ! (k - Suc i)) = Inr (flt d (Fin 0), d)"
        by blast
      have "(p # ps) ! (k - i) = ps ! (k - Suc i)"
        using k(1) by (metis Suc_diff_le diff_Suc_Suc nth_Cons_Suc Suc_le_D diff_Suc_1 diff_diff_cancel diff_le_self Suc_diff_Suc Suc_le_lessD)
      then show ?thesis using k by (intro exI [of _ k]) auto
    qed
  qed
qed

lemma decode_sea_level_real:
  "round_double (- 10000 + round_double (round_double (of_int (1 * 256 * 256 + 134 * 256 + 160))
     * round_double (1 / 10))) = 0"
  by code_simp

lemma decode_sea_level: "decode_elevation 1 134 160 = Fin 0"
  unfolding decode_elevation_def by (simp only: decode_sea_level_real)

lemma sea_level_elevation:
  "get_elevation (example_libs [1, 134, 160]) example_checker (Fin 60) (Fin 30) = Some (Fin 0)"
  by (simp only: get_elevation_def example_elevation fst_conv decode_sea_level)

lemma check_at_rest:
  "check_collision (example_libs [1, 134, 160]) example_checker
     [Fin (pi / 3), Fin (pi / 6), Fin a, v1, v2, v3, a1, a2, a3]
   = Inr (a < 0, Fin a)"
  by (simp add: check_collision_def degrees_examples in_coverage_def sea_level_elevation fsub_def)

lemma scan_two:
  "scan_trajectory (example_libs [1, 134, 160]) example_checker 0
     ([Fin (pi / 3), Fin (pi / 6), Fin 0, Fin 0, Fin 0, Fin 0, Fin 0, Fin 0, Fin 0]
      # [Fin (pi / 3), Fin (pi / 6), Fin (- (981 / 2000000)), Fin 0, Fin 0,
          Fin (- (981 / 10000)), Fin 0, Fin 0, Fin 0]
      # rest)
   = Inr [Warning 3 (Fin 0) (Fin 0), Warning 3 (Fin (1 / 10)) (Fin (- (981 / 2000000))),
          CollisionAlert]"
  by (simp add: check_at_rest get_collision_warning_level_def)

text \<open>
  C8 does not hold of the code. The claim gives the point at index \<open>i\<close> the elapsed
  time \<open>i dt\<close>. \<^verbatim>\<open>predict_from_point\<close> integrates with \<^verbatim>\<open>dt=0.01\<close> and prints the time
  \<^verbatim>\<open>i * 0.1\<close> (its comments speak of a step of 0.1 seconds). Here an aircraft at rest at
  sea level, at 60 degrees north and 30 degrees east over terrain of elevation 0, falls
  below the terrain in the first step: the point at index 1 is one step of 0.01 seconds
  from the initial state, and the warning for it carries the time 0.1.
\<close>

theorem predict_from_point_reported_time:
  "\<exists>trajectory.
     predict_from_point (example_libs [1, 134, 160]) TrajectoryPredictor_init
       [[Fin 0, Fin 0, Fin 0, Fin 0, Fin 0, Fin 0, Fin 60, Fin 30, Fin 0]] 0 example_checker
     = Inr (trajectory,
         [Warning 3 (Fin 0) (Fin 0), Warning 3 (Fin (1 / 10)) (Fin (- (981 / 2000000))),
          CollisionAlert])
   \<and> length trajectory = 6001
   \<and> rk4_step (calculate_derivatives FlightEquations_init) (trajectory ! 0) (Fin (1 / 100)) (Fin 0)
       = Inr (trajectory ! 1)"
proof -
  let ?s0 = "[Fin (pi / 3), Fin (pi / 6), Fin 0, Fin 0, Fin 0, Fin 0, Fin 0, Fin 0, Fin 0]"
  let ?s1 = "[Fin (pi / 3), Fin (pi / 6), Fin (- (981 / 2000000)), Fin 0, Fin 0,
          Fin (- (981 / 10000)), Fin 0, Fin 0, Fin 0]"
  let ?eq = "FlightEquations_init"
  have step: "rk4_step (calculate_derivatives ?eq) ?s0 (Fin (1 / 100)) (Fin 0) = Inr ?s1"
    using rest_step by simp
  obtain traj where t: "predict_loop ?eq 5999 ([?s0] @ [?s1]) ?s1 (Fin (1 / 100))
        (fadd (Fin 0) (Fin (1 / 100))) = Inr traj"
      "length traj = length ([?s0] @ [?s1]) + 5999"
      "take (length ([?s0] @ [?s1])) traj = [?s0] @ [?s1]"
    using predict_loop_total [of ?s1 ?eq 5999 "[?s0] @ [?s1]" "Fin (1 / 100)"
        "fadd (Fin 0) (Fin (1 / 100))"]
    by auto
  have "predict_loop ?eq (Suc 5999) [?s0] ?s0 (Fin (1 / 100)) (Fin 0) = Inr traj"
    using step t(1) by (simp only: predict_loop.simps bind_Inr)
  moreover have "nat \<lfloor>round_double (60 / (1 / 100))\<rfloor> = Suc 5999"
    by (simp add: round_double_examples)
  moreover have "round_double (60 / (1 / 100)) < 2 ^ 1024"
    by (simp add: round_double_examples)
  ultimately have p: "predict_trajectory TrajectoryPredictor_init ?s0 (Fin (1 / 100)) (Fin 60)
      = Inr traj"
    using predict_trajectory_steps [of "1 / 100" 60 TrajectoryPredictor_init ?s0]
    by (simp add: TrajectoryPredictor_init_def)
  have len: "length traj = 6001" using t(2) by simp
  from t(3) have tk: "take (Suc (Suc 0)) traj = [?s0, ?s1]" by simp
  have "traj = take (Suc (Suc 0)) traj @ drop (Suc (Suc 0)) traj" by simp
  then have r: "traj = ?s0 # ?s1 # drop (Suc (Suc 0)) traj"
    unfolding tk by simp
  have scan: "scan_trajectory (example_libs [1, 134, 160]) example_checker 0 traj
     = Inr [Warning 3 (Fin 0) (Fin 0), Warning 3 (Fin (1 / 10)) (Fin (- (981 / 2000000))),
          CollisionAlert]"
    by (subst r) (rule scan_two)
  have "predict_from_point (example_libs [1, 134, 160]) TrajectoryPredictor_init
       [[Fin 0, Fin 0, Fin 0, Fin 0, Fin 0, Fin 0, Fin 60, Fin 30, Fin 0]] 0 example_checker
     = Inr (traj,
         [Warning 3 (Fin 0) (Fin 0), Warning 3 (Fin (1 / 10)) (Fin (- (981 / 2000000))),
          CollisionAlert])"
    using p scan by (simp add: predict_from_point_def np_getitem_def radians_examples)
  moreover have "rk4_step (calculate_derivatives ?eq) (traj ! 0) (Fin (1 / 100)) (Fin 0)
       = Inr (traj ! 1)"
    by (subst r, subst (2) r) (simp add: step)
  ultimately show ?thesis using len by blast
qed

end
